theory Spec2Isabelle
  imports Complex_Main
begin

section \<open>Numbers of the diagnostics module\<close>

text \<open>
  The module \<^verbatim>\<open>modules/diagnostics.py\<close> computes with Python and numpy floats. A float is
  modelled as a real number or one of the three special values of IEEE arithmetic.
  Rounding and the sign of zero are left out: a finite float is the exact real. A
  Python \<^verbatim>\<open>int\<close> such as the literal \<^verbatim>\<open>0\<close> is the finite value of the same magnitude.
  The rounding and the overflow of doubles are added in a section of their own, after
  the detectors.
  What is kept is everything the control flow of the detectors depends on: a division
  of numpy scalars by zero returns an infinity or NaN (numpy warns, it does not raise),
  every ordered comparison with NaN is false, and \<^verbatim>\<open>!=\<close> with NaN is true.
\<close>

datatype fl = Fin real | PInf | NInf | NaN

fun fl_add :: "fl \<Rightarrow> fl \<Rightarrow> fl" where
  "fl_add (Fin a) (Fin b) = Fin (a + b)"
| "fl_add (Fin a) PInf = PInf"
| "fl_add (Fin a) NInf = NInf"
| "fl_add PInf (Fin b) = PInf"
| "fl_add NInf (Fin b) = NInf"
| "fl_add PInf PInf = PInf"
| "fl_add NInf NInf = NInf"
| "fl_add _ _ = NaN"

fun fl_sub :: "fl \<Rightarrow> fl \<Rightarrow> fl" where
  "fl_sub (Fin a) (Fin b) = Fin (a - b)"
| "fl_sub (Fin a) PInf = NInf"
| "fl_sub (Fin a) NInf = PInf"
| "fl_sub PInf (Fin b) = PInf"
| "fl_sub NInf (Fin b) = NInf"
| "fl_sub PInf NInf = PInf"
| "fl_sub NInf PInf = NInf"
| "fl_sub _ _ = NaN"

fun fl_mul :: "fl \<Rightarrow> fl \<Rightarrow> fl" where
  "fl_mul (Fin a) (Fin b) = Fin (a * b)"
| "fl_mul (Fin a) PInf = (if a = 0 then NaN else if 0 < a then PInf else NInf)"
| "fl_mul (Fin a) NInf = (if a = 0 then NaN else if 0 < a then NInf else PInf)"
| "fl_mul PInf (Fin b) = (if b = 0 then NaN else if 0 < b then PInf else NInf)"
| "fl_mul NInf (Fin b) = (if b = 0 then NaN else if 0 < b then NInf else PInf)"
| "fl_mul PInf PInf = PInf"
| "fl_mul NInf NInf = PInf"
| "fl_mul PInf NInf = NInf"
| "fl_mul NInf PInf = NInf"
| "fl_mul _ _ = NaN"

text \<open>
  Division as numpy scalars divide: a zero divisor gives NaN for \<open>0 / 0\<close> and an
  infinity with the sign of the dividend otherwise.
\<close>

fun fl_div :: "fl \<Rightarrow> fl \<Rightarrow> fl" where
  "fl_div (Fin a) (Fin b) =
     (if b \<noteq> 0 then Fin (a / b) else if a = 0 then NaN else if 0 < a then PInf else NInf)"
| "fl_div (Fin a) PInf = Fin 0"
| "fl_div (Fin a) NInf = Fin 0"
| "fl_div PInf (Fin b) = (if 0 \<le> b then PInf else NInf)"
| "fl_div NInf (Fin b) = (if 0 \<le> b then NInf else PInf)"
| "fl_div _ _ = NaN"

fun fl_abs :: "fl \<Rightarrow> fl" where
  "fl_abs (Fin a) = Fin \<bar>a\<bar>"
| "fl_abs PInf = PInf"
| "fl_abs NInf = PInf"
| "fl_abs NaN = NaN"

fun fl_lt :: "fl \<Rightarrow> fl \<Rightarrow> bool" where
  "fl_lt (Fin a) (Fin b) = (a < b)"
| "fl_lt (Fin a) PInf = True"
| "fl_lt NInf (Fin b) = True"
| "fl_lt NInf PInf = True"
| "fl_lt _ _ = False"

definition fl_gt :: "fl \<Rightarrow> fl \<Rightarrow> bool" where
  "fl_gt a b = fl_lt b a"

fun fl_eq :: "fl \<Rightarrow> fl \<Rightarrow> bool" where
  "fl_eq (Fin a) (Fin b) = (a = b)"
| "fl_eq PInf PInf = True"
| "fl_eq NInf NInf = True"
| "fl_eq _ _ = False"

definition fl_ne :: "fl \<Rightarrow> fl \<Rightarrow> bool" where
  "fl_ne a b = (\<not> fl_eq a b)"

text \<open>
  Python's two-argument \<^verbatim>\<open>min(a, b)\<close> keeps \<open>a\<close> unless \<open>b < a\<close>.
\<close>

definition py_min :: "fl \<Rightarrow> fl \<Rightarrow> fl" where
  "py_min a b = (if fl_lt b a then b else a)"

definition is_finite :: "fl \<Rightarrow> bool" where
  "is_finite v = (case v of Fin _ \<Rightarrow> True | _ \<Rightarrow> False)"

text \<open>The exceptions the detectors can raise; both come from the numeric libraries.\<close>

datatype error = ValueError | IndexError

section \<open>Library functions the detectors call\<close>

text \<open>
  These are functions of numpy, pandas and scipy, not of the repository; each is written
  down as the library computes it, on the inputs the detectors pass. A series is a list of
  finite reals (\<^verbatim>\<open>pd.Series\<close> without missing values).
\<close>

text \<open>\<^verbatim>\<open>np.mean\<close> of a sequence of floats: the sum divided by the length, NaN when empty.\<close>

definition np_mean :: "fl list \<Rightarrow> fl" where
  "np_mean vs = (if vs = [] then NaN else fl_div (foldl fl_add (Fin 0) vs) (Fin (real (length vs))))"

text \<open>\<^verbatim>\<open>Series.mean()\<close> in exact arithmetic: NaN for an empty series.\<close>

definition series_mean :: "real list \<Rightarrow> fl" where
  "series_mean xs = (if xs = [] then NaN else Fin (sum_list xs / real (length xs)))"

text \<open>
  \<^verbatim>\<open>Series.std()\<close> in exact arithmetic: the sample standard deviation (\<^verbatim>\<open>ddof=1\<close>),
  NaN for fewer than two values.
\<close>

definition series_std :: "real list \<Rightarrow> fl" where
  "series_std xs =
     (if length xs < 2 then NaN
      else (let m = sum_list xs / real (length xs)
            in Fin (sqrt ((\<Sum>x\<leftarrow>xs. (x - m)\<^sup>2) / real (length xs - 1)))))"

text \<open>\<^verbatim>\<open>np.arange(n)\<close> as floats.\<close>

definition arange :: "nat \<Rightarrow> real list" where
  "arange n = map real [0..<n]"

text \<open>
  \<^verbatim>\<open>scipy.stats.linregress(x, y)\<close> for \<open>x\<close> and \<open>y\<close> of the same length, as the trend
  detector calls it, and the two fields the detector reads, in the releases of scipy up
  to 1.11 (a later release is \<open>linregress_nan\<close> below). The routine raises ValueError
  for empty input (``Inputs must not be empty'') and when all of more than one \<open>x\<close> are
  identical. The second moments are those of \<^verbatim>\<open>np.cov(x, y, bias=1)\<close>, sums of products
  of deviations divided by the number of points. The correlation is 0 when a variance is 0
  and is otherwise clipped to \<open>[-1, 1]\<close>. The slope is \<open>ssxym / ssxm\<close>, a division of
  numpy scalars: for a single point it is \<open>0 / 0\<close>, NaN, and the routine returns.
\<close>

record linregress_result =
  slope :: fl
  rvalue :: fl

definition clip_r :: "real \<Rightarrow> real" where
  "clip_r r0 = (if 1 < r0 then 1 else if r0 < - 1 then - 1 else r0)"

definition linregress :: "real list \<Rightarrow> real list \<Rightarrow> error + linregress_result" where
  "linregress x y =
     (if x = [] \<or> y = [] then Inl ValueError
      else if Max (set x) = Min (set x) \<and> 1 < length x then Inl ValueError
      else (let n = real (length x);
                xmean = sum_list x / n;
                ymean = sum_list y / real (length y);
                ssxm = (\<Sum>a\<leftarrow>x. (a - xmean)\<^sup>2) / n;
                ssxym = (\<Sum>(a, b)\<leftarrow>zip x y. (a - xmean) * (b - ymean)) / n;
                ssym = (\<Sum>b\<leftarrow>y. (b - ymean)\<^sup>2) / n;
                r = (if ssxm = 0 \<or> ssym = 0 then 0 else clip_r (ssxym / sqrt (ssxm * ssym)))
            in Inr \<lparr>slope = fl_div (Fin ssxym) (Fin ssxm), rvalue = Fin r\<rparr>))"

text \<open>
  \<^verbatim>\<open>np.abs(scipy.fft.fft(values))\<close>: the magnitudes of the discrete Fourier transform,
  one per input point. The transform raises ValueError on an empty array.
\<close>

definition dft_bin :: "real list \<Rightarrow> nat \<Rightarrow> complex" where
  "dft_bin xs k =
     (\<Sum>(j, x)\<leftarrow>enumerate 0 xs.
         complex_of_real x * cis (- (2 * pi * real j * real k / real (length xs))))"

definition fft_abs :: "real list \<Rightarrow> error + real list" where
  "fft_abs xs =
     (if xs = [] then Inl ValueError
      else Inr (map (\<lambda>k. cmod (dft_bin xs k)) [0..<length xs]))"

section \<open>The detectors\<close>

record detector_result =
  detected :: bool
  confidence :: fl

record trend_result = detector_result +
  historical_trend :: string
  forecast_trend :: string
  hist_slope :: fl
  forecast_slope :: fl
  hist_r_squared :: fl
  forecast_r_squared :: fl

record thresholded_result = detector_result +
  threshold :: fl

record seasonality_result = thresholded_result +
  hist_seasonal_strength :: fl
  forecast_seasonal_strength :: fl

record volatility_result = thresholded_result +
  hist_cv :: fl
  forecast_cv :: fl
  volatility_ratio :: fl

record magnitude_result = thresholded_result +
  recent_mean :: fl
  forecast_mean :: fl
  pct_difference :: fl

subsection \<open>\<^verbatim>\<open>detect_trend_mismatch\<close>\<close>

definition trend_of :: "linregress_result \<Rightarrow> linregress_result \<Rightarrow> trend_result" where
  "trend_of hr fr =
     (let trend_mismatch =
            ((fl_gt (slope hr) (Fin 0) \<and> fl_lt (slope fr) (Fin 0))
             \<or> (fl_lt (slope hr) (Fin 0) \<and> fl_gt (slope fr) (Fin 0)));
          conf = (if trend_mismatch then py_min (fl_abs (rvalue hr)) (fl_abs (rvalue fr))
                  else Fin 0)
      in \<lparr>detected = trend_mismatch, confidence = conf,
          historical_trend = (if fl_gt (slope hr) (Fin 0) then ''increasing'' else ''decreasing''),
          forecast_trend = (if fl_gt (slope fr) (Fin 0) then ''increasing'' else ''decreasing''),
          hist_slope = slope hr, forecast_slope = slope fr,
          hist_r_squared = fl_mul (rvalue hr) (rvalue hr),
          forecast_r_squared = fl_mul (rvalue fr) (rvalue fr)\<rparr>)"

definition detect_trend_mismatch :: "real list \<Rightarrow> real list \<Rightarrow> error + trend_result" where
  "detect_trend_mismatch historical_data forecast_data =
     (case linregress (arange (length historical_data)) historical_data of
        Inl e \<Rightarrow> Inl e
      | Inr hr \<Rightarrow>
          (case linregress (arange (length forecast_data)) forecast_data of
             Inl e \<Rightarrow> Inl e
           | Inr fr \<Rightarrow> Inr (trend_of hr fr)))"

subsection \<open>\<^verbatim>\<open>detect_missing_seasonality\<close>\<close>

definition seasonal_freq_index :: "nat \<Rightarrow> nat" where
  "seasonal_freq_index n = (if 12 \<le> n then n div 12 else 1)"

text \<open>
  The seasonal strength of one segment: lines 46 to 49 for the historical data and 52 to
  54 for the forecast. Indexing past the end of the spectrum raises IndexError.
\<close>

definition seasonal_strength :: "real list \<Rightarrow> error + fl" where
  "seasonal_strength xs =
     (case fft_abs xs of
        Inl e \<Rightarrow> Inl e
      | Inr spectrum \<Rightarrow>
          (let i = seasonal_freq_index (length spectrum)
           in if length spectrum \<le> i then Inl IndexError
              else Inr (fl_div (Fin (spectrum ! i)) (np_mean (map Fin (drop 1 spectrum))))))"

definition seasonality_of :: "fl \<Rightarrow> fl \<Rightarrow> seasonality_result" where
  "seasonality_of hs fs =
     (let seasonality_threshold = Fin (3 / 2);
          hist_has_seasonality = fl_gt hs seasonality_threshold;
          forecast_has_seasonality = fl_gt fs seasonality_threshold;
          missing_seasonality = (hist_has_seasonality \<and> \<not> forecast_has_seasonality);
          conf = (if missing_seasonality then fl_div hs seasonality_threshold else Fin 0)
      in \<lparr>detected = missing_seasonality, confidence = py_min conf (Fin 1),
          threshold = seasonality_threshold,
          hist_seasonal_strength = hs, forecast_seasonal_strength = fs\<rparr>)"

definition detect_missing_seasonality :: "real list \<Rightarrow> real list \<Rightarrow> error + seasonality_result" where
  "detect_missing_seasonality historical_data forecast_data =
     (case seasonal_strength historical_data of
        Inl e \<Rightarrow> Inl e
      | Inr hs \<Rightarrow>
          (case seasonal_strength forecast_data of
             Inl e \<Rightarrow> Inl e
           | Inr fs \<Rightarrow> Inr (seasonality_of hs fs)))"

subsection \<open>\<^verbatim>\<open>detect_volatility_mismatch\<close>\<close>

text \<open>The coefficient of variation of lines 79 and 80, with its zero-mean fallback.\<close>

definition cv :: "real list \<Rightarrow> fl" where
  "cv xs = (if fl_ne (series_mean xs) (Fin 0) then fl_div (series_std xs) (series_mean xs)
            else Fin 0)"

definition detect_volatility_mismatch :: "real list \<Rightarrow> real list \<Rightarrow> volatility_result" where
  "detect_volatility_mismatch historical_data forecast_data =
     (let hcv = cv historical_data;
          fcv = cv forecast_data;
          ratio = (if fl_ne hcv (Fin 0) then fl_div fcv hcv else Fin 1);
          thr = Fin (1 / 2);
          too_flat = fl_lt ratio thr;
          conf = (if too_flat then fl_div (fl_sub thr ratio) thr else Fin 0)
      in \<lparr>detected = too_flat, confidence = conf, threshold = thr,
          hist_cv = hcv, forecast_cv = fcv, volatility_ratio = ratio\<rparr>)"

subsection \<open>\<^verbatim>\<open>detect_magnitude_mismatch\<close>\<close>

definition detect_magnitude_mismatch :: "real list \<Rightarrow> real list \<Rightarrow> magnitude_result" where
  "detect_magnitude_mismatch recent_actuals early_forecast =
     (let rmean = series_mean recent_actuals;
          fmean = series_mean early_forecast;
          pct_diff = (if fl_ne rmean (Fin 0) then fl_div (fl_abs (fl_sub fmean rmean)) rmean
                      else if fl_ne fmean (Fin 0) then PInf else Fin 0);
          thr = Fin (1 / 2);
          magnitude_mismatch = fl_gt pct_diff thr;
          conf = (if magnitude_mismatch then py_min (fl_div pct_diff thr) (Fin 1) else Fin 0)
      in \<lparr>detected = magnitude_mismatch, confidence = conf, threshold = thr,
          recent_mean = rmean, forecast_mean = fmean, pct_difference = pct_diff\<rparr>)"

section \<open>The aggregator \<^verbatim>\<open>run_all_diagnostics\<close>\<close>

record summary_result =
  total_issues :: nat
  avg_confidence :: fl
  risk_score :: fl

record aggregate_result =
  trend_mismatch :: trend_result
  missing_seasonality :: seasonality_result
  volatility_mismatch :: volatility_result
  magnitude_mismatch :: magnitude_result
  summary :: summary_result

text \<open>
  The summary reads only the two common fields of each detector result, in the order the
  dictionary holds them.
\<close>

definition summarise :: "(bool \<times> fl) list \<Rightarrow> summary_result" where
  "summarise results =
     (let detected_issues = length (filter fst results);
          avg = np_mean (map snd (filter fst results))
      in \<lparr>total_issues = detected_issues,
          avg_confidence = (if 0 < detected_issues then avg else Fin 0),
          risk_score = (if 0 < detected_issues then fl_mul (Fin (real detected_issues)) avg
                        else Fin 0)\<rparr>)"

definition run_all_diagnostics ::
  "real list \<Rightarrow> real list \<Rightarrow> real list \<Rightarrow> real list \<Rightarrow> error + aggregate_result" where
  "run_all_diagnostics historical_data forecast_data recent_actuals early_forecast =
     (case detect_trend_mismatch historical_data forecast_data of
        Inl e \<Rightarrow> Inl e
      | Inr t \<Rightarrow>
          (case detect_missing_seasonality historical_data forecast_data of
             Inl e \<Rightarrow> Inl e
           | Inr s \<Rightarrow>
               (let v = detect_volatility_mismatch historical_data forecast_data;
                    m = detect_magnitude_mismatch recent_actuals early_forecast
                in Inr \<lparr>trend_mismatch = t, missing_seasonality = s,
                        volatility_mismatch = v, magnitude_mismatch = m,
                        summary = summarise
                          [(detected t, confidence t), (detected s, confidence s),
                           (detected v, confidence v), (detected m, confidence m)]\<rparr>)))"

text \<open>The four pairs of flag and confidence of an aggregate result, as the summary reads them.\<close>

definition flags :: "aggregate_result \<Rightarrow> (bool \<times> fl) list" where
  "flags res =
     [(detected (trend_mismatch res), confidence (trend_mismatch res)),
      (detected (missing_seasonality res), confidence (missing_seasonality res)),
      (detected (volatility_mismatch res), confidence (volatility_mismatch res)),
      (detected (magnitude_mismatch res), confidence (magnitude_mismatch res))]"

section \<open>The least-squares slope, as the specification words it\<close>

text \<open>
  The specification describes the trend detector by the ordinary least-squares slope of a
  segment against its positions \<open>0, \<dots>, n - 1\<close>: the sum of the products of the
  deviations divided by the sum of the squared deviations of the positions. This
  definition follows those words; \<open>linregress_slope_ols\<close> below compares it with the slope
  the regression routine returns.
\<close>

definition ols_slope :: "real list \<Rightarrow> real" where
  "ols_slope ys =
     (let n = length ys;
          xbar = (\<Sum>i<n. real i) / real n;
          ybar = (\<Sum>i<n. ys ! i) / real n
      in (\<Sum>i<n. (real i - xbar) * (ys ! i - ybar)) / (\<Sum>i<n. (real i - xbar)\<^sup>2))"

section \<open>Double-precision rounding\<close>

text \<open>
  The exact numbers above leave out what binary64 arithmetic does to a result: it is
  rounded to the nearest number with 53 significant bits, ties to the even neighbour, it
  becomes an infinity when the rounded magnitude reaches \<open>2 ^ 1024\<close>, and below
  \<open>2 powi (- 1022)\<close> the spacing stays that of the lowest binade (gradual underflow).
  \<open>f64\<close> is that rounding of a real number; the sign of zero is still left out.
\<close>

definition round_even :: "real \<Rightarrow> int" where
  "round_even y =
     (let n = \<lfloor>y\<rfloor>; r = y - of_int n
      in if r < 1 / 2 then n else if 1 / 2 < r then n + 1 else if even n then n else n + 1)"

definition f64 :: "real \<Rightarrow> fl" where
  "f64 x =
     (if x = 0 then Fin 0
      else (let e = max \<lfloor>log 2 \<bar>x\<bar>\<rfloor> (- 1022);
                u = 2 powi (e - 52);
                y = u * of_int (round_even (x / u))
            in if 2 ^ 1024 \<le> \<bar>y\<bar> then (if 0 < x then PInf else NInf) else Fin y))"

text \<open>
  The arithmetic operations of doubles: the exact operation followed by \<open>f64\<close> when both
  operands are finite, and the rules of the special values otherwise. A division by zero
  is that of numpy scalars, an infinity or NaN.
\<close>

fun add64 :: "fl \<Rightarrow> fl \<Rightarrow> fl" where
  "add64 (Fin a) (Fin b) = f64 (a + b)"
| "add64 a b = fl_add a b"

fun sub64 :: "fl \<Rightarrow> fl \<Rightarrow> fl" where
  "sub64 (Fin a) (Fin b) = f64 (a - b)"
| "sub64 a b = fl_sub a b"

fun mul64 :: "fl \<Rightarrow> fl \<Rightarrow> fl" where
  "mul64 (Fin a) (Fin b) = f64 (a * b)"
| "mul64 a b = fl_mul a b"

fun div64 :: "fl \<Rightarrow> fl \<Rightarrow> fl" where
  "div64 (Fin a) (Fin b) = (if b = 0 then fl_div (Fin a) (Fin b) else f64 (a / b))"
| "div64 a b = fl_div a b"

fun sqrt64 :: "fl \<Rightarrow> fl" where
  "sqrt64 (Fin a) = (if a < 0 then NaN else f64 (sqrt a))"
| "sqrt64 PInf = PInf"
| "sqrt64 NInf = NaN"
| "sqrt64 NaN = NaN"

text \<open>
  \<^verbatim>\<open>Series.mean()\<close> and \<^verbatim>\<open>Series.std()\<close> as pandas computes them in doubles. The mean is
  the sum divided by the count. The standard deviation (\<^verbatim>\<open>ddof=1\<close>) takes two passes: the
  mean, then the sum of the squares of \<open>avg - x\<close> divided by the count less one, then
  the square root. The sum is taken from left to right, which is how numpy adds fewer
  than 8 values; every series evaluated below is that short.
\<close>

definition sum64 :: "real list \<Rightarrow> fl" where
  "sum64 xs = foldl add64 (Fin 0) (map Fin xs)"

definition mean64 :: "real list \<Rightarrow> fl" where
  "mean64 xs = (if xs = [] then NaN else div64 (sum64 xs) (Fin (real (length xs))))"

definition std64 :: "real list \<Rightarrow> fl" where
  "std64 xs =
     (if length xs < 2 then NaN
      else (let avg = div64 (sum64 xs) (Fin (real (length xs)));
                sqr = map (\<lambda>x. mul64 (sub64 avg (Fin x)) (sub64 avg (Fin x))) xs
            in sqrt64 (div64 (foldl add64 (Fin 0) sqr) (Fin (real (length xs - 1))))))"

section \<open>The detectors over given library routines\<close>

text \<open>
  The trend, volatility and magnitude detectors depend on three library routines, whose
  results differ with the arithmetic and with the release of scipy installed (the
  repository pins none). The routines are gathered in a record, and the detectors are
  written once more with the record as a parameter; their bodies are those of the
  detectors above, line by line.
\<close>

record numerics =
  regress :: "real list \<Rightarrow> real list \<Rightarrow> error + linregress_result"
  mean_of :: "real list \<Rightarrow> fl"
  std_of :: "real list \<Rightarrow> fl"

text \<open>
  \<^verbatim>\<open>scipy.stats.linregress\<close> in later releases of scipy. A sample of fewer than two points
  is too small: the routine warns and returns a result whose fields are all NaN, also for
  empty input. When a variance is 0 the correlation is NaN if the covariance is 0 as well
  and 0 otherwise. The moments, the slope and the clipping of the correlation are as
  before.
\<close>

definition second_moments :: "real list \<Rightarrow> real list \<Rightarrow> real \<times> real \<times> real" where
  "second_moments x y =
     (let n = real (length x);
          xmean = sum_list x / n;
          ymean = sum_list y / real (length y);
          ssxm = (\<Sum>a\<leftarrow>x. (a - xmean)\<^sup>2) / n;
          ssxym = (\<Sum>(a, b)\<leftarrow>zip x y. (a - xmean) * (b - ymean)) / n;
          ssym = (\<Sum>b\<leftarrow>y. (b - ymean)\<^sup>2) / n
      in (ssxm, ssxym, ssym))"

definition linregress_nan :: "real list \<Rightarrow> real list \<Rightarrow> error + linregress_result" where
  "linregress_nan x y =
     (if length x < 2 \<or> length y < 2 then Inr \<lparr>slope = NaN, rvalue = NaN\<rparr>
      else if Max (set x) = Min (set x) then Inl ValueError
      else (case second_moments x y of
              (ssxm, ssxym, ssym) \<Rightarrow>
                Inr \<lparr>slope = fl_div (Fin ssxym) (Fin ssxm),
                     rvalue = (if ssxm = 0 \<or> ssym = 0 then (if ssxym = 0 then NaN else Fin 0)
                               else Fin (clip_r (ssxym / sqrt (ssxm * ssym))))\<rparr>))"

text \<open>The two behaviours of the regression routine, by release.\<close>

datatype scipy_release = Scipy_1_11 | Scipy_1_17

definition linregress_of ::
  "scipy_release \<Rightarrow> real list \<Rightarrow> real list \<Rightarrow> error + linregress_result" where
  "linregress_of rel = (case rel of Scipy_1_11 \<Rightarrow> linregress | Scipy_1_17 \<Rightarrow> linregress_nan)"

text \<open>
  \<open>exact_numerics\<close> are the routines of the first part: with them the detectors below are
  the detectors above (\<open>with_exact_parts\<close>, \<open>with_exact_volatility\<close>, \<open>with_exact_run_all\<close>).
  \<open>ieee_numerics\<close> are the mean and standard deviation in doubles and the regression
  routine of the given release, its moments still exact. The few operations the detectors
  apply to the results of the routines stay those of the first part.
\<close>

definition exact_numerics :: numerics where
  "exact_numerics = \<lparr>regress = linregress, mean_of = series_mean, std_of = series_std\<rparr>"

definition ieee_numerics :: "scipy_release \<Rightarrow> numerics" where
  "ieee_numerics rel = \<lparr>regress = linregress_of rel, mean_of = mean64, std_of = std64\<rparr>"

definition detect_trend_mismatch_with ::
  "numerics \<Rightarrow> real list \<Rightarrow> real list \<Rightarrow> error + trend_result" where
  "detect_trend_mismatch_with N historical_data forecast_data =
     (case regress N (arange (length historical_data)) historical_data of
        Inl e \<Rightarrow> Inl e
      | Inr hr \<Rightarrow>
          (case regress N (arange (length forecast_data)) forecast_data of
             Inl e \<Rightarrow> Inl e
           | Inr fr \<Rightarrow> Inr (trend_of hr fr)))"

definition cv_with :: "numerics \<Rightarrow> real list \<Rightarrow> fl" where
  "cv_with N xs =
     (if fl_ne (mean_of N xs) (Fin 0) then fl_div (std_of N xs) (mean_of N xs) else Fin 0)"

definition detect_volatility_mismatch_with ::
  "numerics \<Rightarrow> real list \<Rightarrow> real list \<Rightarrow> volatility_result" where
  "detect_volatility_mismatch_with N historical_data forecast_data =
     (let hcv = cv_with N historical_data;
          fcv = cv_with N forecast_data;
          ratio = (if fl_ne hcv (Fin 0) then fl_div fcv hcv else Fin 1);
          thr = Fin (1 / 2);
          too_flat = fl_lt ratio thr;
          conf = (if too_flat then fl_div (fl_sub thr ratio) thr else Fin 0)
      in \<lparr>detected = too_flat, confidence = conf, threshold = thr,
          hist_cv = hcv, forecast_cv = fcv, volatility_ratio = ratio\<rparr>)"

definition detect_magnitude_mismatch_with ::
  "numerics \<Rightarrow> real list \<Rightarrow> real list \<Rightarrow> magnitude_result" where
  "detect_magnitude_mismatch_with N recent_actuals early_forecast =
     (let rmean = mean_of N recent_actuals;
          fmean = mean_of N early_forecast;
          pct_diff = (if fl_ne rmean (Fin 0) then fl_div (fl_abs (fl_sub fmean rmean)) rmean
                      else if fl_ne fmean (Fin 0) then PInf else Fin 0);
          thr = Fin (1 / 2);
          magnitude_mismatch = fl_gt pct_diff thr;
          conf = (if magnitude_mismatch then py_min (fl_div pct_diff thr) (Fin 1) else Fin 0)
      in \<lparr>detected = magnitude_mismatch, confidence = conf, threshold = thr,
          recent_mean = rmean, forecast_mean = fmean, pct_difference = pct_diff\<rparr>)"

definition run_all_diagnostics_with ::
  "numerics \<Rightarrow> real list \<Rightarrow> real list \<Rightarrow> real list \<Rightarrow> real list \<Rightarrow> error + aggregate_result" where
  "run_all_diagnostics_with N historical_data forecast_data recent_actuals early_forecast =
     (case detect_trend_mismatch_with N historical_data forecast_data of
        Inl e \<Rightarrow> Inl e
      | Inr t \<Rightarrow>
          (case detect_missing_seasonality historical_data forecast_data of
             Inl e \<Rightarrow> Inl e
           | Inr s \<Rightarrow>
               (let v = detect_volatility_mismatch_with N historical_data forecast_data;
                    m = detect_magnitude_mismatch_with N recent_actuals early_forecast
                in Inr \<lparr>trend_mismatch = t, missing_seasonality = s,
                        volatility_mismatch = v, magnitude_mismatch = m,
                        summary = summarise
                          [(detected t, confidence t), (detected s, confidence s),
                           (detected v, confidence v), (detected m, confidence m)]\<rparr>)))"

section \<open>Series evaluated below\<close>


text \<open>
  A history of seven points, its last six points as the recent actuals, and a forecast of
  two large negative doubles, \<^verbatim>\<open>-2.0**600\<close> and \<^verbatim>\<open>-3 * 2.0**600\<close>, whose squared deviations
  from their mean exceed the range of doubles.
\<close>

definition overflow_history :: "real list" where
  "overflow_history = [7, 0, 0, 0, 0, 0, 0]"

definition overflow_recent :: "real list" where
  "overflow_recent = [0, 0, 0, 0, 0, 0]"

definition overflow_forecast :: "real list" where
  "overflow_forecast = [- (2 ^ 600), - (3 * 2 ^ 600)]"

section \<open>Facts about the float operations\<close>

lemma fl_gt_Fin_cases: "fl_gt v (Fin a) \<Longrightarrow> (\<exists>x. v = Fin x \<and> a < x) \<or> v = PInf"
  by (cases v) (simp_all add: fl_gt_def)

lemma exceeds_threshold_clamped:
  "0 < a \<Longrightarrow> fl_gt v (Fin a) \<Longrightarrow> fl_lt (Fin 1) (fl_div v (Fin a))"
  by (cases v) (simp_all add: fl_gt_def)

lemma exceeds_threshold_min:
  "0 < a \<Longrightarrow> fl_gt v (Fin a) \<Longrightarrow> py_min (fl_div v (Fin a)) (Fin 1) = Fin 1"
  by (simp add: py_min_def exceeds_threshold_clamped)

lemma py_min_Fin: "py_min (Fin a) (Fin b) = Fin (min a b)"
  by (simp add: py_min_def min_def)

lemma not_positive_not_above_half: "\<not> fl_gt v (Fin 0) \<Longrightarrow> \<not> fl_gt v (Fin (1 / 2))"
  by (cases v) (simp_all add: fl_gt_def)

lemma pct_diff_negative_mean:
  "m < 0 \<Longrightarrow> \<not> fl_gt (fl_div (fl_abs (fl_sub v (Fin m))) (Fin m)) (Fin 0)"
  by (cases v) (simp_all add: fl_gt_def divide_less_0_iff zero_less_divide_iff)

lemma all_Fin_list: "\<forall>v\<in>set vs. \<exists>c. v = Fin c \<Longrightarrow> \<exists>cs. vs = map Fin cs"
proof (induction vs)
  case Nil
  then show ?case by simp
next
  case (Cons v vs)
  then obtain c cs where "v = Fin c" and "vs = map Fin cs"
    by auto
  then have "v # vs = map Fin (c # cs)"
    by simp
  then show ?case
    by (rule exI)
qed

lemma foldl_fl_add_Fin: "foldl fl_add (Fin a) (map Fin xs) = Fin (a + sum_list xs)"
  by (induction xs arbitrary: a) (simp_all add: add.assoc)

lemma np_mean_map_Fin:
  "np_mean (map Fin xs) = (if xs = [] then NaN else Fin (sum_list xs / real (length xs)))"
  by (simp add: np_mean_def foldl_fl_add_Fin)

section \<open>Facts about the library functions\<close>

lemma series_mean_cases: "series_mean xs = NaN \<or> (\<exists>m. series_mean xs = Fin m)"
  by (simp add: series_mean_def)

lemma series_std_cases: "series_std xs = NaN \<or> (\<exists>m. series_std xs = Fin m)"
  by (simp add: series_std_def Let_def)

lemma cv_cases: "cv xs = NaN \<or> (\<exists>c. cv xs = Fin c)"
  using series_mean_cases[of xs] series_std_cases[of xs]
  by (auto simp: cv_def fl_ne_def)

lemma set_arange: "set (arange n) = real ` {..<n}"
  by (auto simp: arange_def)

lemma arange_not_constant:
  assumes "2 \<le> n"
  shows "Max (set (arange n)) \<noteq> Min (set (arange n))"
proof -
  have fin: "finite (set (arange n))"
    by simp
  have "0 \<in> set (arange n)" and "1 \<in> set (arange n)"
    using assms by (auto simp: set_arange image_iff intro: bexI[of _ 0] bexI[of _ 1])
  then have "Min (set (arange n)) \<le> 0" and "1 \<le> Max (set (arange n))"
    using fin by (simp_all add: Min_le Max_ge)
  then show ?thesis
    by linarith
qed

lemma clip_r_bound: "\<bar>clip_r r0\<bar> \<le> 1"
  by (auto simp: clip_r_def)

lemma linregress_Inr_rvalue:
  assumes "linregress x y = Inr lr"
  shows "\<exists>r. rvalue lr = Fin r \<and> \<bar>r\<bar> \<le> 1"
  using assms clip_r_bound
  by (auto simp: linregress_def Let_def simp del: fl_div.simps split: if_splits)

lemma linregress_Inr_slope:
  "linregress x y = Inr lr \<Longrightarrow>
     slope lr =
       fl_div
         (Fin ((\<Sum>(a, b)\<leftarrow>zip x y.
                  (a - sum_list x / real (length x)) * (b - sum_list y / real (length y))) /
               real (length x)))
         (Fin ((\<Sum>a\<leftarrow>x. (a - sum_list x / real (length x))\<^sup>2) / real (length x)))"
  by (auto simp: linregress_def Let_def simp del: fl_div.simps split: if_splits)

lemma linregress_single: "linregress (arange 1) [v] = Inr \<lparr>slope = NaN, rvalue = Fin 0\<rparr>"
  by (simp add: arange_def linregress_def Let_def)

lemma linregress_arange_returns:
  assumes "2 \<le> length ys"
  shows "\<exists>lr. linregress (arange (length ys)) ys = Inr lr"
proof -
  have c1: "(arange (length ys) = [] \<or> ys = []) = False"
    using assms by (auto simp: arange_def)
  have c2: "(Max (set (arange (length ys))) = Min (set (arange (length ys))) \<and>
      1 < length (arange (length ys))) = False"
    using arange_not_constant[OF assms] by simp
  show ?thesis
    unfolding linregress_def by (simp only: c1 c2 if_False Let_def) blast
qed

lemma linregress_nonempty_returns:
  assumes "ys \<noteq> []"
  shows "\<exists>lr. linregress (arange (length ys)) ys = Inr lr \<and> (length ys = 1 \<longrightarrow> slope lr = NaN)"
proof (cases "length ys = 1")
  case True
  then obtain v where "ys = [v]"
    by (auto simp: length_Suc_conv)
  then show ?thesis
    using linregress_single[of v] by simp
next
  case False
  moreover have "length ys \<noteq> 0"
    using assms by simp
  ultimately have "2 \<le> length ys"
    by arith
  then show ?thesis
    using False linregress_arange_returns by blast
qed

lemma sum_list_upt: "sum_list (map g [0..<n]) = (\<Sum>i<n. g i)" for g :: "nat \<Rightarrow> real"
  by (simp add: interv_sum_list_conv_sum_set_nat atLeast_upt)

lemma zip_arange: "zip (arange (length ys)) ys = map (\<lambda>i. (real i, ys ! i)) [0..<length ys]"
  by (rule nth_equalityI) (simp_all add: arange_def)

lemma arange_moment_positive:
  assumes "2 \<le> n"
  shows "(\<Sum>i<n. (real i - c)\<^sup>2) \<noteq> 0"
proof
  assume z: "(\<Sum>i<n. (real i - c)\<^sup>2) = 0"
  have "\<forall>i\<in>{..<n}. (real i - c)\<^sup>2 = 0"
    using z by (subst (asm) sum_nonneg_eq_0_iff) simp_all
  then have "(real 0 - c)\<^sup>2 = 0" and "(real 1 - c)\<^sup>2 = 0"
    using assms by auto
  then show False
    by simp
qed

lemma linregress_slope_ols:
  assumes "2 \<le> length ys" and "linregress (arange (length ys)) ys = Inr lr"
  shows "slope lr = Fin (ols_slope ys)"
proof -
  let ?n = "length ys"
  have n: "real ?n \<noteq> 0"
    using assms(1) by auto
  have sx: "sum_list (arange ?n) = (\<Sum>i<?n. real i)"
    by (simp add: arange_def sum_list_upt)
  have sy: "sum_list ys = (\<Sum>i<?n. ys ! i)"
    by (simp add: sum_list_sum_nth atLeast0LessThan)
  have sxx: "(\<Sum>a\<leftarrow>arange ?n. (a - c)\<^sup>2) = (\<Sum>i<?n. (real i - c)\<^sup>2)" for c
    by (simp add: arange_def comp_def sum_list_upt)
  have sxy: "(\<Sum>(a, b)\<leftarrow>zip (arange ?n) ys. (a - c) * (b - d)) =
      (\<Sum>i<?n. (real i - c) * (ys ! i - d))" for c d
    by (simp add: zip_arange comp_def sum_list_upt)
  have len: "length (arange ?n) = ?n"
    by (simp add: arange_def)
  have nz: "(\<Sum>i<?n. (real i - c)\<^sup>2) / real ?n \<noteq> 0" for c
    using arange_moment_positive[OF assms(1), of c] n by simp
  show ?thesis
    using linregress_Inr_slope[OF assms(2)] n nz
    by (simp add: len sx sy sxx sxy ols_slope_def Let_def)
qed

lemma fft_abs_length: "fft_abs xs = Inr sp \<Longrightarrow> length sp = length xs"
  by (auto simp: fft_abs_def split: if_splits)

lemma seasonal_freq_index_bounds:
  "2 \<le> n \<Longrightarrow> 1 \<le> seasonal_freq_index n \<and> seasonal_freq_index n < n"
  by (auto simp: seasonal_freq_index_def)

lemma seasonal_strength_single: "seasonal_strength [v] = Inl IndexError"
  by (simp add: seasonal_strength_def fft_abs_def seasonal_freq_index_def)

lemma seasonal_strength_returns:
  assumes "2 \<le> length xs"
  shows "\<exists>v. seasonal_strength xs = Inr v"
proof -
  from assms have "xs \<noteq> []"
    by auto
  then obtain sp where sp: "fft_abs xs = Inr sp"
    by (simp add: fft_abs_def)
  then have "length sp = length xs"
    by (rule fft_abs_length)
  with assms have "seasonal_freq_index (length sp) < length sp"
    by (simp add: seasonal_freq_index_bounds)
  then show ?thesis
    by (simp add: seasonal_strength_def sp Let_def)
qed

section \<open>Evaluating the library functions on small series\<close>

lemma arange2: "arange 2 = [0, 1]"
  by (simp add: arange_def eval_nat_numeral upt_rec)

lemma sqrt_quarter: "sqrt (1 / 4) = 1 / 2"
  by (rule real_sqrt_unique) (simp_all add: power2_eq_square)

lemma linregress_02: "linregress (arange 2) [0, 2] = Inr \<lparr>slope = Fin 2, rvalue = Fin 1\<rparr>"
  by (simp add: arange2 linregress_def clip_r_def Let_def power2_eq_square sqrt_quarter)

lemma linregress_20:
  "linregress (arange 2) [2, 0] = Inr \<lparr>slope = Fin (- 2), rvalue = Fin (- 1)\<rparr>"
  by (simp add: arange2 linregress_def clip_r_def Let_def power2_eq_square sqrt_quarter)

lemma linregress_11: "linregress (arange 2) [1, 1] = Inr \<lparr>slope = Fin 0, rvalue = Fin 0\<rparr>"
  by (simp add: arange2 linregress_def Let_def power2_eq_square)

lemma cis_minus_pi: "cis (- pi) = - 1"
  by (simp add: complex_eq_iff)

lemma cis_minus_multiple_pi: "cis (- (real k * pi)) = (- 1) ^ k"
proof -
  have "cis (- (real k * pi)) = cis (real k * (- pi))"
    by simp
  also have "\<dots> = cis (- pi) ^ k"
    by (simp only: DeMoivre)
  finally show ?thesis
    by (simp add: cis_minus_pi)
qed

lemma cis_minus_pi_numerals:
  "cis (- (pi * 2)) = 1" "cis (- (pi * 3)) = - 1" "cis (- (pi * 4)) = 1" "cis (- (pi * 5)) = - 1"
  using cis_minus_multiple_pi[of 2] cis_minus_multiple_pi[of 3]
    cis_minus_multiple_pi[of 4] cis_minus_multiple_pi[of 5]
  by (simp_all add: mult.commute)

lemma upt6: "[0..<6] = [0, 1, 2, 3, 4, 5]"
  by (simp add: eval_nat_numeral upt_rec)

lemma fft_abs_02: "fft_abs [0, 2] = Inr [2, 2]"
  by (simp add: fft_abs_def dft_bin_def eval_nat_numeral upt_rec cis_minus_pi)

lemma fft_abs_pulse: "fft_abs [1, 0, 0, - 1, 0, 0] = Inr [0, 2, 0, 2, 0, 2]"
  by (simp add: fft_abs_def dft_bin_def upt6 cis_minus_pi cis_minus_pi_numerals)

lemma seasonal_strength_02: "seasonal_strength [0, 2] = Inr (Fin 1)"
  by (simp add: seasonal_strength_def fft_abs_02 seasonal_freq_index_def np_mean_def)

lemma seasonal_strength_pulse: "seasonal_strength [1, 0, 0, - 1, 0, 0] = Inr (Fin (5 / 3))"
  by (simp add: seasonal_strength_def fft_abs_pulse seasonal_freq_index_def np_mean_def)

lemma cv_02: "cv [0, 2] = Fin (sqrt 2)"
  by (simp add: cv_def series_mean_def series_std_def fl_ne_def power2_eq_square)

lemma cv_135: "cv [1, 3, 5] = Fin (2 / 3)"
  by (simp add: cv_def series_mean_def series_std_def fl_ne_def power2_eq_square)

lemma cv_neg_135: "cv [- 1, - 3, - 5] = Fin (- (2 / 3))"
  by (simp add: cv_def series_mean_def series_std_def fl_ne_def power2_eq_square)

lemma detect_trend_02_02:
  "detect_trend_mismatch [0, 2] [0, 2] =
     Inr (trend_of \<lparr>slope = Fin 2, rvalue = Fin 1\<rparr> \<lparr>slope = Fin 2, rvalue = Fin 1\<rparr>)"
  using linregress_02 by (simp add: detect_trend_mismatch_def numeral_2_eq_2)

lemma detect_trend_02_20:
  "detect_trend_mismatch [0, 2] [2, 0] =
     Inr (trend_of \<lparr>slope = Fin 2, rvalue = Fin 1\<rparr> \<lparr>slope = Fin (- 2), rvalue = Fin (- 1)\<rparr>)"
  using linregress_02 linregress_20 by (simp add: detect_trend_mismatch_def numeral_2_eq_2)

lemma detect_trend_11_02:
  "detect_trend_mismatch [1, 1] [0, 2] =
     Inr (trend_of \<lparr>slope = Fin 0, rvalue = Fin 0\<rparr> \<lparr>slope = Fin 2, rvalue = Fin 1\<rparr>)"
  using linregress_11 linregress_02 by (simp add: detect_trend_mismatch_def numeral_2_eq_2)

lemma detect_seasonality_02_02:
  "detect_missing_seasonality [0, 2] [0, 2] = Inr (seasonality_of (Fin 1) (Fin 1))"
  by (simp add: detect_missing_seasonality_def seasonal_strength_02)

lemma detect_seasonality_pulse_02:
  "detect_missing_seasonality [1, 0, 0, - 1, 0, 0] [0, 2] =
     Inr (seasonality_of (Fin (5 / 3)) (Fin 1))"
  by (simp add: detect_missing_seasonality_def seasonal_strength_pulse seasonal_strength_02)

section \<open>The results of the single detectors\<close>

lemma detect_trend_Inr:
  "detect_trend_mismatch h f = Inr t \<Longrightarrow>
     \<exists>hr fr. linregress (arange (length h)) h = Inr hr \<and>
             linregress (arange (length f)) f = Inr fr \<and> t = trend_of hr fr"
  by (auto simp: detect_trend_mismatch_def split: sum.splits)

lemma detect_seasonality_Inr:
  "detect_missing_seasonality h f = Inr s \<Longrightarrow>
     \<exists>hs fs. seasonal_strength h = Inr hs \<and> seasonal_strength f = Inr fs \<and>
             s = seasonality_of hs fs"
  by (auto simp: detect_missing_seasonality_def split: sum.splits)

lemma trend_of_slopes:
  "hist_slope (trend_of hr fr) = slope hr" "forecast_slope (trend_of hr fr) = slope fr"
  "detected (trend_of hr fr) =
     ((fl_gt (slope hr) (Fin 0) \<and> fl_lt (slope fr) (Fin 0)) \<or>
      (fl_lt (slope hr) (Fin 0) \<and> fl_gt (slope fr) (Fin 0)))"
  by (simp_all add: trend_of_def Let_def)

lemma trend_of_undetected:
  "\<not> detected (trend_of hr fr) \<Longrightarrow> confidence (trend_of hr fr) = Fin 0"
  by (auto simp: trend_of_def Let_def)

lemma trend_of_nan_slope:
  "slope hr = NaN \<or> slope fr = NaN \<Longrightarrow>
     \<not> detected (trend_of hr fr) \<and> confidence (trend_of hr fr) = Fin 0"
  by (auto simp: trend_of_def Let_def fl_gt_def)

lemma trend_of_confidence_bounds:
  assumes "rvalue hr = Fin a" "\<bar>a\<bar> \<le> 1" "rvalue fr = Fin b" "\<bar>b\<bar> \<le> 1"
  shows "\<exists>c. confidence (trend_of hr fr) = Fin c \<and> 0 \<le> c \<and> c \<le> 1"
  using assms by (auto simp: trend_of_def Let_def py_min_Fin)

lemma detect_trend_confidence_bounds:
  assumes "detect_trend_mismatch h f = Inr t"
  shows "\<exists>c. confidence t = Fin c \<and> 0 \<le> c \<and> c \<le> 1"
proof -
  from assms obtain hr fr where
    hr: "linregress (arange (length h)) h = Inr hr" and
    fr: "linregress (arange (length f)) f = Inr fr" and t: "t = trend_of hr fr"
    by (auto dest: detect_trend_Inr)
  from linregress_Inr_rvalue[OF hr] linregress_Inr_rvalue[OF fr] show ?thesis
    unfolding t by (auto intro: trend_of_confidence_bounds)
qed

lemma seasonality_of_confidence:
  "confidence (seasonality_of hs fs) = (if detected (seasonality_of hs fs) then Fin 1 else Fin 0)"
  by (simp add: seasonality_of_def Let_def exceeds_threshold_min) (simp add: py_min_def)

lemma seasonality_of_preclamp:
  "detected (seasonality_of hs fs) \<Longrightarrow>
     fl_lt (Fin 1)
       (fl_div (hist_seasonal_strength (seasonality_of hs fs)) (threshold (seasonality_of hs fs)))"
  by (simp add: seasonality_of_def Let_def exceeds_threshold_clamped)

lemma detect_seasonality_confidence_finite:
  assumes "detect_missing_seasonality h f = Inr s"
  shows "\<exists>c. confidence s = Fin c"
  using assms by (auto dest!: detect_seasonality_Inr simp: seasonality_of_confidence)

lemma volatility_undetected:
  "\<not> detected (detect_volatility_mismatch h f) \<Longrightarrow>
     confidence (detect_volatility_mismatch h f) = Fin 0"
  by (auto simp: detect_volatility_mismatch_def Let_def)

lemma volatility_detected_confidence:
  "detected (detect_volatility_mismatch h f) \<Longrightarrow>
     \<exists>c. confidence (detect_volatility_mismatch h f) = Fin c \<and> 0 < c"
  using cv_cases[of h] cv_cases[of f]
  by (auto simp: detect_volatility_mismatch_def Let_def fl_ne_def split: if_splits)

lemma volatility_confidence_finite: "\<exists>c. confidence (detect_volatility_mismatch h f) = Fin c"
  using volatility_detected_confidence[of h f] volatility_undetected[of h f] by blast

lemma magnitude_confidence:
  "confidence (detect_magnitude_mismatch ra ef) =
     (if detected (detect_magnitude_mismatch ra ef) then Fin 1 else Fin 0)"
  by (simp add: detect_magnitude_mismatch_def Let_def exceeds_threshold_min)

lemma magnitude_preclamp:
  "detected (detect_magnitude_mismatch ra ef) \<Longrightarrow>
     fl_lt (Fin 1)
       (fl_div (pct_difference (detect_magnitude_mismatch ra ef))
          (threshold (detect_magnitude_mismatch ra ef)))"
  by (simp add: detect_magnitude_mismatch_def Let_def exceeds_threshold_clamped)

lemma magnitude_confidence_finite: "\<exists>c. confidence (detect_magnitude_mismatch ra ef) = Fin c"
  by (simp add: magnitude_confidence)

section \<open>The aggregator\<close>

lemma run_all_Inr:
  assumes "run_all_diagnostics h f ra ef = Inr res"
  shows "\<exists>t s. detect_trend_mismatch h f = Inr t \<and> detect_missing_seasonality h f = Inr s \<and>
           trend_mismatch res = t \<and> missing_seasonality res = s \<and>
           volatility_mismatch res = detect_volatility_mismatch h f \<and>
           magnitude_mismatch res = detect_magnitude_mismatch ra ef \<and>
           summary res = summarise (flags res)"
  using assms by (auto simp: run_all_diagnostics_def flags_def Let_def split: sum.splits)

lemma run_all_confidences_finite:
  assumes "run_all_diagnostics h f ra ef = Inr res"
  shows "\<exists>cs. map snd (filter fst (flags res)) = map Fin cs"
proof -
  from run_all_Inr[OF assms] obtain t s where
    t: "detect_trend_mismatch h f = Inr t" "trend_mismatch res = t" and
    s: "detect_missing_seasonality h f = Inr s" "missing_seasonality res = s" and
    v: "volatility_mismatch res = detect_volatility_mismatch h f" and
    m: "magnitude_mismatch res = detect_magnitude_mismatch ra ef"
    by blast
  have "\<forall>p\<in>set (flags res). \<exists>c. snd p = Fin c"
    using detect_trend_confidence_bounds[OF t(1)] detect_seasonality_confidence_finite[OF s(1)]
      volatility_confidence_finite[of h f] magnitude_confidence_finite[of ra ef]
    by (auto simp: flags_def t(2) s(2) v m)
  then have "\<forall>v\<in>set (map snd (filter fst (flags res))). \<exists>c. v = Fin c"
    by auto
  then show ?thesis
    by (rule all_Fin_list)
qed

lemma summarise_finite:
  assumes "map snd (filter fst ps) = map Fin cs"
  shows "total_issues (summarise ps) = length cs"
    and "avg_confidence (summarise ps) = Fin (if cs = [] then 0 else sum_list cs / real (length cs))"
    and "risk_score (summarise ps) = Fin (sum_list cs)"
proof -
  have len: "length (filter fst ps) = length cs"
    using arg_cong[OF assms, of length] by simp
  show "total_issues (summarise ps) = length cs"
    by (simp add: summarise_def Let_def len)
  show "avg_confidence (summarise ps) = Fin (if cs = [] then 0 else sum_list cs / real (length cs))"
    using len by (simp add: summarise_def Let_def assms np_mean_map_Fin)
  show "risk_score (summarise ps) = Fin (sum_list cs)"
    using len by (cases "cs = []") (simp_all add: summarise_def Let_def assms np_mean_map_Fin)
qed

lemma summarise_product:
  "risk_score (summarise ps) =
     fl_mul (Fin (real (total_issues (summarise ps)))) (avg_confidence (summarise ps))"
  by (simp add: summarise_def Let_def)

lemma single_detected:
  assumes "length (filter fst ps) = 1" and "map snd (filter fst ps) = map Fin cs"
    and "p \<in> set ps" and "fst p"
  shows "snd p = Fin (sum_list cs)"
proof -
  from assms(1) obtain q where q: "filter fst ps = [q]"
    by (auto simp: length_Suc_conv)
  from assms(3,4) have "p \<in> set (filter fst ps)"
    by simp
  with q have "p = q"
    by simp
  with q assms(2) show ?thesis
    by (cases cs) auto
qed

lemma run_all_example:
  "\<exists>res. run_all_diagnostics [0, 2] [0, 2] [0] [1] = Inr res \<and>
     flags res = [(False, Fin 0), (False, Fin 0), (False, Fin 0), (True, Fin 1)]"
proof -
  have v: "detect_volatility_mismatch [0, 2] [0, 2] =
      \<lparr>detected = False, confidence = Fin 0, threshold = Fin (1 / 2),
       hist_cv = Fin (sqrt 2), forecast_cv = Fin (sqrt 2), volatility_ratio = Fin 1\<rparr>"
    by (simp add: detect_volatility_mismatch_def Let_def cv_02 fl_ne_def)
  have m: "detect_magnitude_mismatch [0] [1] =
      \<lparr>detected = True, confidence = Fin 1, threshold = Fin (1 / 2),
       recent_mean = Fin 0, forecast_mean = Fin 1, pct_difference = PInf\<rparr>"
    by (simp add: detect_magnitude_mismatch_def Let_def series_mean_def fl_ne_def fl_gt_def
        py_min_def)
  have t: "detected (trend_of \<lparr>slope = Fin 2, rvalue = Fin 1\<rparr> \<lparr>slope = Fin 2, rvalue = Fin 1\<rparr>) = False"
    "confidence (trend_of \<lparr>slope = Fin 2, rvalue = Fin 1\<rparr> \<lparr>slope = Fin 2, rvalue = Fin 1\<rparr>) = Fin 0"
    by (simp_all add: trend_of_def fl_gt_def)
  have s: "detected (seasonality_of (Fin 1) (Fin 1)) = False"
    "confidence (seasonality_of (Fin 1) (Fin 1)) = Fin 0"
    by (simp_all add: seasonality_of_def fl_gt_def py_min_def)
  show ?thesis
    by (simp add: run_all_diagnostics_def detect_trend_02_02 detect_seasonality_02_02
        flags_def Let_def v m t s)
qed

section \<open>Facts about double-precision rounding\<close>

lemma round_even_of_int [simp]: "round_even (of_int n) = n"
  by (simp add: round_even_def)

lemma round_even_near: "\<bar>of_int (round_even y) - y\<bar> \<le> 1 / 2"
  unfolding round_even_def Let_def by (auto simp: abs_le_iff; linarith)

lemma two_powr_int: "(2::real) powr real_of_int k = 2 powi k"
  by (simp add: powr_real_of_int')

lemma floor_log2_iff:
  "0 < x \<Longrightarrow> (\<lfloor>log 2 x\<rfloor> = e) = (2 powi e \<le> x \<and> x < 2 powi (e + 1))"
  using floor_log_eq_powr_iff[of x 2 e] by (simp only: two_powr_int)

lemma binade:
  assumes "x \<noteq> 0"
  shows "2 powi \<lfloor>log 2 \<bar>x\<bar>\<rfloor> \<le> \<bar>x\<bar>" and "\<bar>x\<bar> < 2 powi (\<lfloor>log 2 \<bar>x\<bar>\<rfloor> + 1)"
  using assms floor_log2_iff[of "\<bar>x\<bar>" "\<lfloor>log 2 \<bar>x\<bar>\<rfloor>"] by simp_all

lemma binade_unique:
  assumes "2 powi e \<le> \<bar>x\<bar>" and "\<bar>x\<bar> < 2 powi (e + 1)"
  shows "\<lfloor>log 2 \<bar>x\<bar>\<rfloor> = e"
proof -
  have "(0::real) < 2 powi e" by simp
  with assms(1) have "0 < \<bar>x\<bar>" by linarith
  then show ?thesis
    using assms floor_log2_iff[of "\<bar>x\<bar>" e] by simp
qed

lemma two_powi_less_imp: "(2::real) powi a < 2 powi b \<Longrightarrow> a < b"
  using power_int_increasing[of b a "2::real"] by (cases "a < b") auto

lemma two_powi_mono: "a \<le> b \<Longrightarrow> (2::real) powi a \<le> 2 powi b"
  by (rule power_int_increasing) simp_all

lemma two_powi_1024: "(2::real) powi 1024 = 2 ^ 1024"
  using power_int_of_nat[of "2::real" 1024] by simp

lemma f64_round:
  assumes "2 powi e \<le> \<bar>x\<bar>" and "\<bar>x\<bar> < 2 powi (e + 1)" and "- 1022 \<le> e" and "e \<le> 1022"
  shows "f64 x = Fin (2 powi (e - 52) * of_int (round_even (x / 2 powi (e - 52))))"
proof -
  let ?u = "(2::real) powi (e - 52)"
  let ?y = "?u * of_int (round_even (x / ?u))"
  have u: "0 < ?u" by simp
  have nz: "x \<noteq> 0"
  proof
    assume "x = 0"
    with assms(1) have "2 powi e \<le> (0::real)" by simp
    moreover have "(0::real) < 2 powi e" by simp
    ultimately show False by linarith
  qed
  have fl: "\<lfloor>log 2 \<bar>x\<bar>\<rfloor> = e"
    using assms(1,2) by (rule binade_unique)
  have "?y - x = ?u * (of_int (round_even (x / ?u)) - x / ?u)"
    using u by (simp add: right_diff_distrib)
  then have "\<bar>?y - x\<bar> = \<bar>?u\<bar> * \<bar>of_int (round_even (x / ?u)) - x / ?u\<bar>"
    by (simp only: abs_mult)
  then have "\<bar>?y - x\<bar> = ?u * \<bar>of_int (round_even (x / ?u)) - x / ?u\<bar>"
    using u by simp
  also have "\<dots> \<le> ?u * (1 / 2)"
    using u round_even_near[of "x / ?u"] by (intro mult_left_mono) simp_all
  finally have near: "\<bar>?y - x\<bar> \<le> ?u / 2" by simp
  have "?u \<le> 2 powi (e + 1)"
    by (rule two_powi_mono) simp
  with near assms(2) have "\<bar>?y\<bar> < 2 powi (e + 1) + 2 powi (e + 1)"
    by linarith
  also have "\<dots> = 2 powi (e + 2)"
    using power_int_add[of "2::real" "e + 1" 1] by (simp add: add.commute mult.commute)
  also have "\<dots> \<le> 2 powi 1024"
    using assms(4) by (intro two_powi_mono) simp
  finally have "\<not> 2 ^ 1024 \<le> \<bar>?y\<bar>"
    by (simp add: two_powi_1024)
  then show ?thesis
    using nz assms(3) by (simp add: f64_def fl Let_def max_def)
qed

lemma f64_exact:
  assumes x: "x = of_int m * 2 powi k" and m: "\<bar>m\<bar> < 2 ^ 53" and k: "- 1074 \<le> k" "k \<le> 971"
  shows "f64 x = Fin x"
proof (cases "x = 0")
  case True
  then show ?thesis by (simp add: f64_def)
next
  case False
  define e where "e = max \<lfloor>log 2 \<bar>x\<bar>\<rfloor> (- 1022)"
  define u :: real where "u = 2 powi (e - 52)"
  have absx: "\<bar>x\<bar> = \<bar>of_int m\<bar> * 2 powi k"
    by (simp add: x abs_mult)
  have "real_of_int \<bar>m\<bar> < real_of_int (2 ^ 53)"
    using m by (simp only: of_int_less_iff)
  then have "\<bar>real_of_int m\<bar> < 2 ^ 53"
    by simp
  then have "\<bar>x\<bar> < 2 ^ 53 * 2 powi k"
    unfolding absx by (intro mult_strict_right_mono) simp_all
  also have "\<dots> = 2 powi (53 + k)"
    using power_int_add[of "2::real" 53 k] power_int_of_nat[of "2::real" 53] by simp
  finally have lt: "\<bar>x\<bar> < 2 powi (53 + k)" .
  with binade(1)[OF False] have "(2::real) powi \<lfloor>log 2 \<bar>x\<bar>\<rfloor> < 2 powi (53 + k)"
    by linarith
  then have "\<lfloor>log 2 \<bar>x\<bar>\<rfloor> < 53 + k"
    by (rule two_powi_less_imp)
  then have ek: "e - 52 \<le> k"
    using k(1) by (simp add: e_def max_def)
  define j where "j = nat (k - (e - 52))"
  have "k = (e - 52) + int j"
    using ek by (simp add: j_def)
  then have "(2::real) powi k = u * 2 powi (int j)"
    using power_int_add[of "2::real" "e - 52" "int j"] by (simp add: u_def)
  then have pk: "(2::real) powi k = u * 2 ^ j"
    by (simp only: power_int_of_nat)
  have u: "0 < u"
    by (simp add: u_def)
  have xu: "x = u * of_int (m * 2 ^ j)"
    by (simp add: x pk)
  then have "x / u = of_int (m * 2 ^ j)"
    using u by simp
  then have "round_even (x / u) = m * 2 ^ j"
    by (simp only: round_even_of_int)
  then have y: "u * of_int (round_even (x / u)) = x"
    using xu by simp
  have "(2::real) powi (53 + k) \<le> 2 powi 1024"
    using k(2) by (intro two_powi_mono) simp
  with lt have big: "\<not> 2 ^ 1024 \<le> \<bar>x\<bar>"
    by (simp add: two_powi_1024)
  have "f64 x = (if 2 ^ 1024 \<le> \<bar>u * of_int (round_even (x / u))\<bar>
      then (if 0 < x then PInf else NInf) else Fin (u * of_int (round_even (x / u))))"
    using False unfolding f64_def Let_def u_def e_def by (simp only: if_False)
  then show ?thesis
    using big by (simp only: y if_False)
qed

lemma f64_overflow:
  assumes "2 ^ 1024 \<le> \<bar>x\<bar>"
  shows "f64 x = (if 0 < x then PInf else NInf)"
proof -
  let ?f = "\<lfloor>log 2 \<bar>x\<bar>\<rfloor>"
  let ?u = "(2::real) powi (?f - 52)"
  have nz: "x \<noteq> 0"
    using assms by auto
  have "(2::real) powi 1024 < 2 powi (?f + 1)"
    using assms binade(2)[OF nz] by (simp add: two_powi_1024)
  then have e: "1024 \<le> ?f"
    using two_powi_less_imp[of 1024 "?f + 1"] by simp
  then have mx: "max ?f (- 1022) = ?f"
    by simp
  have u: "0 < ?u" by simp
  have "(2::real) powi ?f = ?u * 2 powi 52"
    using power_int_add[of "2::real" "?f - 52" 52] by simp
  then have pe: "(2::real) powi ?f = ?u * 2 ^ 52"
    using power_int_of_nat[of "2::real" 52] by simp
  with binade(1)[OF nz] have "2 ^ 52 \<le> \<bar>x\<bar> / ?u"
    using u by (simp add: field_simps)
  then have big: "2 ^ 52 \<le> \<bar>x / ?u\<bar>"
    using u by (simp add: abs_divide)
  have "\<bar>x / ?u\<bar> - 1 / 2 \<le> \<bar>real_of_int (round_even (x / ?u))\<bar>"
    using round_even_near[of "x / ?u"] by linarith
  with big have "2 ^ 52 - 1 / 2 \<le> real_of_int \<bar>round_even (x / ?u)\<bar>"
    by simp
  then have "real_of_int (2 ^ 52 - 1) < real_of_int \<bar>round_even (x / ?u)\<bar>"
    by simp
  then have "2 ^ 52 - 1 < \<bar>round_even (x / ?u)\<bar>"
    by (simp only: of_int_less_iff)
  then have "2 ^ 52 \<le> \<bar>round_even (x / ?u)\<bar>"
    by linarith
  then have "real_of_int (2 ^ 52) \<le> real_of_int \<bar>round_even (x / ?u)\<bar>"
    by (simp only: of_int_le_iff)
  then have "2 ^ 52 \<le> \<bar>real_of_int (round_even (x / ?u))\<bar>"
    by simp
  then have "?u * 2 ^ 52 \<le> ?u * \<bar>real_of_int (round_even (x / ?u))\<bar>"
    using u by (intro mult_left_mono) simp_all
  then have "2 powi ?f \<le> \<bar>?u * real_of_int (round_even (x / ?u))\<bar>"
    using u by (simp add: pe abs_mult)
  moreover have "(2::real) ^ 1024 \<le> 2 powi ?f"
    using two_powi_mono[OF e] by (simp add: two_powi_1024)
  ultimately have "2 ^ 1024 \<le> \<bar>?u * real_of_int (round_even (x / ?u))\<bar>"
    by linarith
  then show ?thesis
    using nz by (simp add: f64_def Let_def mx)
qed

lemma f64_positive:
  assumes "2 powi (- 1022) \<le> x" and "x < 2 ^ 1023"
  shows "\<exists>s. f64 x = Fin s \<and> 0 < s"
proof -
  define e where "e = \<lfloor>log 2 \<bar>x\<bar>\<rfloor>"
  define u :: real where "u = 2 powi (e - 52)"
  have "(0::real) < 2 powi (- 1022)" by simp
  with assms(1) have pos: "0 < x" by linarith
  then have nz: "x \<noteq> 0" by simp
  have lo: "2 powi e \<le> \<bar>x\<bar>" and hi: "\<bar>x\<bar> < 2 powi (e + 1)"
    unfolding e_def using binade[OF nz] by simp_all
  have "(2::real) powi (- 1022) < 2 powi (e + 1)"
    using assms(1) hi pos by simp
  then have e1: "- 1022 \<le> e"
    using two_powi_less_imp[of "- 1022" "e + 1"] by simp
  have "(2::real) powi 1023 = 2 ^ 1023"
    using power_int_of_nat[of "2::real" 1023] by simp
  then have "(2::real) powi e < 2 powi 1023"
    using lo assms(2) pos by simp
  then have e2: "e \<le> 1022"
    using two_powi_less_imp[of e 1023] by simp
  have f: "f64 x = Fin (u * of_int (round_even (x / u)))"
    unfolding u_def using lo hi e1 e2 by (rule f64_round)
  have u: "0 < u" by (simp add: u_def)
  have "(2::real) powi e = u * 2 powi 52"
    using power_int_add[of "2::real" "e - 52" 52] by (simp add: u_def)
  then have "(2::real) powi e = u * 2 ^ 52"
    using power_int_of_nat[of "2::real" 52] by simp
  with lo pos have "2 ^ 52 \<le> x / u"
    using u by (simp add: field_simps)
  moreover have "x / u - 1 / 2 \<le> real_of_int (round_even (x / u))"
    using round_even_near[of "x / u"] by linarith
  ultimately have "0 < real_of_int (round_even (x / u))"
    by simp
  then have "0 < u * of_int (round_even (x / u))"
    using u by simp
  with f show ?thesis by blast
qed

lemma f64_of_int: "\<bar>n\<bar> < 2 ^ 53 \<Longrightarrow> f64 (of_int n) = Fin (of_int n)"
  using f64_exact[of "of_int n" n 0] by simp

lemma f64_zero [simp]: "f64 0 = Fin 0"
  by (simp add: f64_def)

lemma f64_one [simp]: "f64 1 = Fin 1"
  using f64_of_int[of 1] by simp

lemma f64_numeral [simp]: "numeral w < (2::int) ^ 53 \<Longrightarrow> f64 (numeral w) = Fin (numeral w)"
  using f64_of_int[of "numeral w"] by simp

lemma f64_neg_numeral [simp]:
  "numeral w < (2::int) ^ 53 \<Longrightarrow> f64 (- numeral w) = Fin (- numeral w)"
  using f64_of_int[of "- numeral w"] by simp


lemma f64_pow2:
  "\<bar>m\<bar> < 2 ^ 53 \<Longrightarrow> n \<le> 971 \<Longrightarrow> f64 (of_int m * 2 ^ n) = Fin (of_int m * 2 ^ n)"
  using f64_exact[of "of_int m * 2 ^ n" m "int n"] by simp




section \<open>Facts about the detectors over given library routines\<close>

lemma with_exact_parts:
  "detect_trend_mismatch_with exact_numerics h f = detect_trend_mismatch h f"
  "cv_with exact_numerics xs = cv xs"
  "detect_magnitude_mismatch_with exact_numerics ra ef = detect_magnitude_mismatch ra ef"
  by (simp_all add: exact_numerics_def detect_trend_mismatch_with_def detect_trend_mismatch_def
      cv_with_def cv_def detect_magnitude_mismatch_with_def detect_magnitude_mismatch_def
      split: sum.splits)

lemma with_exact_volatility:
  "detect_volatility_mismatch_with exact_numerics h f = detect_volatility_mismatch h f"
  by (simp add: detect_volatility_mismatch_with_def detect_volatility_mismatch_def
      with_exact_parts)

lemma with_exact_run_all:
  "run_all_diagnostics_with exact_numerics h f ra ef = run_all_diagnostics h f ra ef"
  by (simp add: run_all_diagnostics_with_def run_all_diagnostics_def with_exact_parts
      with_exact_volatility cong: sum.case_cong)

lemma linregress_arange_Inl:
  assumes "linregress (arange (length ys)) ys = Inl e"
  shows "e = ValueError \<and> ys = []"
proof -
  have "ys = []"
    using assms linregress_nonempty_returns[of ys] by (cases "ys = []") auto
  moreover have "e = ValueError"
    by (cases e) (use assms in \<open>auto simp: linregress_def Let_def split: if_splits\<close>)
  ultimately show ?thesis by simp
qed

lemma linregress_arange_short:
  assumes "length ys < 2" and "linregress (arange (length ys)) ys = Inr lr"
  shows "slope lr = NaN"
proof (cases ys)
  case Nil
  with assms(2) show ?thesis
    by (simp add: linregress_def)
next
  case (Cons v vs)
  with assms(1) have "ys = [v]"
    by simp
  with assms(2) linregress_single[of v] show ?thesis
    by simp
qed

lemma linregress_nan_arange_returns:
  "\<exists>lr. linregress_nan (arange (length ys)) ys = Inr lr \<and> (length ys < 2 \<longrightarrow> slope lr = NaN)"
proof (cases "length ys < 2")
  case True
  then show ?thesis
    by (simp add: linregress_nan_def arange_def)
next
  case False
  then have n: "2 \<le> length ys"
    by simp
  then have "Max (set (arange (length ys))) \<noteq> Min (set (arange (length ys)))"
    by (rule arange_not_constant)
  then show ?thesis
    using n by (simp add: linregress_nan_def arange_def split: prod.splits)
qed

lemma linregress_of_arange_Inl:
  assumes "linregress_of rel (arange (length ys)) ys = Inl e"
  shows "e = ValueError \<and> rel = Scipy_1_11 \<and> ys = []"
proof (cases rel)
  case Scipy_1_11
  with assms show ?thesis
    by (simp add: linregress_of_def linregress_arange_Inl)
next
  case Scipy_1_17
  with assms linregress_nan_arange_returns[of ys] show ?thesis
    by (auto simp: linregress_of_def)
qed

lemma linregress_of_arange_short:
  assumes "length ys < 2" and "linregress_of rel (arange (length ys)) ys = Inr lr"
  shows "slope lr = NaN"
proof (cases rel)
  case Scipy_1_11
  with assms show ?thesis
    by (simp add: linregress_of_def linregress_arange_short)
next
  case Scipy_1_17
  with assms linregress_nan_arange_returns[of ys] show ?thesis
    by (auto simp: linregress_of_def)
qed

lemma linregress_of_arange_returns:
  assumes "2 \<le> length ys"
  shows "\<exists>lr. linregress_of rel (arange (length ys)) ys = Inr lr"
  using linregress_arange_returns[OF assms] linregress_nan_arange_returns[of ys]
  by (cases rel) (auto simp: linregress_of_def)

lemma signed_slope_cases:
  "fl_gt (fl_div (Fin a) (Fin b)) (Fin 0) \<or> fl_lt (fl_div (Fin a) (Fin b)) (Fin 0) \<Longrightarrow> a \<noteq> 0"
  by (auto simp: fl_gt_def split: if_splits)

lemma linregress_nan_signed_rvalue:
  assumes "linregress_nan x y = Inr lr"
    and "fl_gt (slope lr) (Fin 0) \<or> fl_lt (slope lr) (Fin 0)"
  shows "\<exists>r. rvalue lr = Fin r \<and> \<bar>r\<bar> \<le> 1"
proof (cases "length x < 2 \<or> length y < 2")
  case True
  with assms(1) have "slope lr = NaN"
    by (auto simp: linregress_nan_def)
  with assms(2) show ?thesis
    by (simp add: fl_gt_def)
next
  case False
  obtain a b c where m: "second_moments x y = (a, b, c)"
    by (cases "second_moments x y") auto
  have "Max (set x) \<noteq> Min (set x)"
    using assms(1) False by (auto simp: linregress_nan_def)
  with assms(1) False have lr: "lr = \<lparr>slope = fl_div (Fin b) (Fin a),
      rvalue = (if a = 0 \<or> c = 0 then (if b = 0 then NaN else Fin 0)
                else Fin (clip_r (b / sqrt (a * c))))\<rparr>"
    by (simp add: linregress_nan_def m del: fl_div.simps split del: if_split)
  then have "slope lr = fl_div (Fin b) (Fin a)"
    by simp
  with assms(2) have "b \<noteq> 0"
    using signed_slope_cases[of b a] by simp
  then show ?thesis
    using clip_r_bound[of "b / sqrt (a * c)"] by (simp add: lr)
qed

lemma linregress_of_signed_rvalue:
  assumes "linregress_of rel x y = Inr lr"
    and "fl_gt (slope lr) (Fin 0) \<or> fl_lt (slope lr) (Fin 0)"
  shows "\<exists>r. rvalue lr = Fin r \<and> \<bar>r\<bar> \<le> 1"
proof (cases rel)
  case Scipy_1_11
  with assms(1) show ?thesis
    by (simp add: linregress_of_def linregress_Inr_rvalue)
next
  case Scipy_1_17
  with assms show ?thesis
    by (simp add: linregress_of_def linregress_nan_signed_rvalue)
qed

lemma detect_trend_with_Inr:
  "detect_trend_mismatch_with N h f = Inr t \<Longrightarrow>
     \<exists>hr fr. regress N (arange (length h)) h = Inr hr \<and>
             regress N (arange (length f)) f = Inr fr \<and> t = trend_of hr fr"
  by (auto simp: detect_trend_mismatch_with_def split: sum.splits)

lemma detect_trend_with_Inl:
  "detect_trend_mismatch_with N h f = Inl e \<Longrightarrow>
     regress N (arange (length h)) h = Inl e \<or> regress N (arange (length f)) f = Inl e"
  by (auto simp: detect_trend_mismatch_with_def split: sum.splits)

lemma run_all_with_trend_error:
  "detect_trend_mismatch_with N h f = Inl e \<Longrightarrow> run_all_diagnostics_with N h f ra ef = Inl e"
  by (simp add: run_all_diagnostics_with_def)

lemma detect_trend_with_confidence:
  assumes "regress N = linregress_of rel" and "detect_trend_mismatch_with N h f = Inr t"
  shows "\<exists>c. confidence t = Fin c \<and> 0 \<le> c \<and> c \<le> 1"
proof -
  from detect_trend_with_Inr[OF assms(2)] obtain hr fr where
    hr: "linregress_of rel (arange (length h)) h = Inr hr" and
    fr: "linregress_of rel (arange (length f)) f = Inr fr" and t: "t = trend_of hr fr"
    unfolding assms(1) by blast
  show ?thesis
  proof (cases "detected t")
    case False
    then show ?thesis
      unfolding t by (simp add: trend_of_undetected)
  next
    case True
    then have "fl_gt (slope hr) (Fin 0) \<or> fl_lt (slope hr) (Fin 0)"
      and "fl_gt (slope fr) (Fin 0) \<or> fl_lt (slope fr) (Fin 0)"
      unfolding t by (auto simp: trend_of_slopes)
    then have "\<exists>r. rvalue hr = Fin r \<and> \<bar>r\<bar> \<le> 1" and "\<exists>r. rvalue fr = Fin r \<and> \<bar>r\<bar> \<le> 1"
      using linregress_of_signed_rvalue[OF hr] linregress_of_signed_rvalue[OF fr] by blast+
    then show ?thesis
      unfolding t using trend_of_confidence_bounds by blast
  qed
qed

lemma second_moments_02: "second_moments (arange 2) [0, 2] = (1 / 4, 1 / 2, 1)"
  by (simp add: second_moments_def arange2 Let_def power2_eq_square)

lemma linregress_nan_02: "linregress_nan (arange 2) [0, 2] = Inr \<lparr>slope = Fin 2, rvalue = Fin 1\<rparr>"
  by (simp add: linregress_nan_def second_moments_02 clip_r_def sqrt_quarter) (simp add: arange2)

lemma detect_trend_with_single:
  "detect_trend_mismatch_with (ieee_numerics Scipy_1_17) [5] [0, 2] =
     Inr (trend_of \<lparr>slope = NaN, rvalue = NaN\<rparr> \<lparr>slope = Fin 2, rvalue = Fin 1\<rparr>)"
  "detect_trend_mismatch_with (ieee_numerics Scipy_1_11) [5] [0, 2] =
     Inr (trend_of \<lparr>slope = NaN, rvalue = Fin 0\<rparr> \<lparr>slope = Fin 2, rvalue = Fin 1\<rparr>)"
  using linregress_nan_02 linregress_02 linregress_single[of 5]
  by (simp_all add: detect_trend_mismatch_with_def ieee_numerics_def linregress_of_def
      numeral_2_eq_2) (simp add: linregress_nan_def)

lemma detect_trend_with_short:
  assumes "regress N = linregress_of rel" and "length h < 2 \<or> length f < 2"
    and "detect_trend_mismatch_with N h f = Inr t"
  shows "\<not> detected t \<and> confidence t = Fin 0"
proof -
  from detect_trend_with_Inr[OF assms(3)] obtain hr fr where
    hr: "linregress_of rel (arange (length h)) h = Inr hr" and
    fr: "linregress_of rel (arange (length f)) f = Inr fr" and t: "t = trend_of hr fr"
    unfolding assms(1) by blast
  have "slope hr = NaN \<or> slope fr = NaN"
    using assms(2) linregress_of_arange_short[OF _ hr] linregress_of_arange_short[OF _ fr]
    by blast
  then show ?thesis
    unfolding t by (rule trend_of_nan_slope)
qed

lemma detect_trend_with_error:
  assumes "regress N = linregress_of rel" and "detect_trend_mismatch_with N h f = Inl e"
  shows "e = ValueError \<and> rel = Scipy_1_11 \<and> (h = [] \<or> f = [])"
  using detect_trend_with_Inl[OF assms(2)] linregress_of_arange_Inl[of rel h e]
    linregress_of_arange_Inl[of rel f e]
  unfolding assms(1) by blast

section \<open>Evaluating the double-precision mean and standard deviation\<close>







lemma cv_with_ieee:
  "cv_with (ieee_numerics rel) xs =
     (if fl_ne (mean64 xs) (Fin 0) then fl_div (std64 xs) (mean64 xs) else Fin 0)"
  by (simp add: cv_with_def ieee_numerics_def)




lemma f64_square_overflow: "f64 (2 ^ 1200) = PInf"
proof -
  have "(2::real) ^ 1024 \<le> 2 ^ 1200"
    by (rule power_increasing) simp_all
  then have "(2::real) ^ 1024 \<le> \<bar>2 ^ 1200\<bar>"
    by simp
  then show ?thesis
    using f64_overflow[of "2 ^ 1200"] by simp
qed

lemmas f64_big =
  f64_pow2[of "- 1" 600, simplified] f64_pow2[of "- 1" 601, simplified]
  f64_pow2[of "- 1" 602, simplified] f64_pow2[of 1 600, simplified]
  f64_square_overflow[simplified]

lemma mean64_forecast: "\<exists>m. mean64 overflow_forecast = Fin m \<and> m < 0"
  by (simp add: overflow_forecast_def mean64_def sum64_def f64_big)

lemma std64_forecast: "std64 overflow_forecast = PInf"
  by (simp add: overflow_forecast_def std64_def sum64_def Let_def f64_big)

lemma f64_sqrt7: "\<exists>s. f64 (sqrt 7) = Fin s \<and> 0 < s"
proof -
  have "(1::real) \<le> sqrt 7"
    by simp
  moreover have "(2::real) powi (- 1022) \<le> 1"
    by (simp add: power_int_minus_divide)
  moreover have "sqrt 7 < sqrt 49"
    by (subst real_sqrt_less_iff) simp
  then have "sqrt 7 < 7"
    by simp
  moreover have "(7::real) \<le> 2 ^ 1023"
  proof -
    have "(2::real) ^ 3 \<le> 2 ^ 1023"
      by (rule power_increasing) simp_all
    then show ?thesis by simp
  qed
  ultimately have "2 powi (- 1022) \<le> sqrt 7" and "sqrt 7 < 2 ^ 1023"
    by linarith+
  then show ?thesis
    by (rule f64_positive)
qed

lemma mean_std_history:
  "mean64 overflow_history = Fin 1" "std64 overflow_history = f64 (sqrt 7)"
  "mean64 overflow_recent = Fin 0"
  by (simp_all add: overflow_history_def overflow_recent_def mean64_def std64_def sum64_def
      Let_def)

lemma volatility_overflow:
  "detected (detect_volatility_mismatch_with (ieee_numerics rel)
     overflow_history overflow_forecast)"
  "confidence (detect_volatility_mismatch_with (ieee_numerics rel)
     overflow_history overflow_forecast) = PInf"
proof -
  obtain s where s: "f64 (sqrt 7) = Fin s" "0 < s"
    using f64_sqrt7 by blast
  obtain m where m: "mean64 overflow_forecast = Fin m" "m < 0"
    using mean64_forecast by blast
  have h: "cv_with (ieee_numerics rel) overflow_history = Fin s"
    by (simp add: cv_with_ieee mean_std_history s(1) fl_ne_def)
  have f: "cv_with (ieee_numerics rel) overflow_forecast = NInf"
    using m(2) by (simp add: cv_with_ieee m(1) std64_forecast fl_ne_def)
  show "detected (detect_volatility_mismatch_with (ieee_numerics rel)
     overflow_history overflow_forecast)"
    and "confidence (detect_volatility_mismatch_with (ieee_numerics rel)
     overflow_history overflow_forecast) = PInf"
    using s(2) by (simp_all add: detect_volatility_mismatch_with_def h f Let_def fl_ne_def)
qed

lemma magnitude_overflow:
  "pct_difference (detect_magnitude_mismatch_with (ieee_numerics rel)
     overflow_recent overflow_forecast) = PInf"
  "detected (detect_magnitude_mismatch_with (ieee_numerics rel)
     overflow_recent overflow_forecast)"
  "confidence (detect_magnitude_mismatch_with (ieee_numerics rel)
     overflow_recent overflow_forecast) = Fin 1"
proof -
  obtain m where m: "mean64 overflow_forecast = Fin m" "m < 0"
    using mean64_forecast by blast
  have n: "mean_of (ieee_numerics rel) = mean64"
    by (simp add: ieee_numerics_def)
  show "pct_difference (detect_magnitude_mismatch_with (ieee_numerics rel)
     overflow_recent overflow_forecast) = PInf"
    and "detected (detect_magnitude_mismatch_with (ieee_numerics rel)
     overflow_recent overflow_forecast)"
    and "confidence (detect_magnitude_mismatch_with (ieee_numerics rel)
     overflow_recent overflow_forecast) = Fin 1"
    using m(2)
    by (simp_all add: detect_magnitude_mismatch_with_def n m(1) mean_std_history Let_def
        fl_ne_def fl_gt_def py_min_def)
qed

lemma summarise_with_infinite:
  "avg_confidence (summarise [(dt, Fin a), (ds, Fin b), (True, PInf), (True, Fin c)]) = PInf"
  "risk_score (summarise [(dt, Fin a), (ds, Fin b), (True, PInf), (True, Fin c)]) = PInf"
  by (cases dt; cases ds; simp add: summarise_def np_mean_def Let_def)+

lemma aggregate_overflow:
  "\<exists>res. run_all_diagnostics_with (ieee_numerics rel)
       overflow_history overflow_forecast overflow_recent overflow_forecast = Inr res \<and>
     pct_difference (magnitude_mismatch res) = PInf \<and>
     detected (magnitude_mismatch res) \<and> confidence (magnitude_mismatch res) = Fin 1 \<and>
     detected (volatility_mismatch res) \<and> confidence (volatility_mismatch res) = PInf \<and>
     avg_confidence (summary res) = PInf \<and> risk_score (summary res) = PInf"
proof -
  let ?h = overflow_history
  let ?f = overflow_forecast
  let ?N = "ieee_numerics rel"
  have len: "2 \<le> length ?h" "2 \<le> length ?f"
    by (simp_all add: overflow_history_def overflow_forecast_def)
  have r: "regress ?N = linregress_of rel"
    by (simp add: ieee_numerics_def)
  obtain hr where hr: "linregress_of rel (arange (length ?h)) ?h = Inr hr"
    using linregress_of_arange_returns[OF len(1)] by blast
  obtain fr where fr: "linregress_of rel (arange (length ?f)) ?f = Inr fr"
    using linregress_of_arange_returns[OF len(2)] by blast
  have t: "detect_trend_mismatch_with ?N ?h ?f = Inr (trend_of hr fr)"
    by (simp add: detect_trend_mismatch_with_def r hr fr)
  obtain a where a: "confidence (trend_of hr fr) = Fin a"
    using detect_trend_with_confidence[OF r t] by blast
  obtain hs where hs: "seasonal_strength ?h = Inr hs"
    using seasonal_strength_returns[OF len(1)] by blast
  obtain fs where fs: "seasonal_strength ?f = Inr fs"
    using seasonal_strength_returns[OF len(2)] by blast
  have s: "detect_missing_seasonality ?h ?f = Inr (seasonality_of hs fs)"
    by (simp add: detect_missing_seasonality_def hs fs)
  obtain b where b: "confidence (seasonality_of hs fs) = Fin b"
    by (cases "detected (seasonality_of hs fs)") (simp_all add: seasonality_of_confidence)
  show ?thesis
    by (simp add: run_all_diagnostics_with_def t s Let_def volatility_overflow
        magnitude_overflow a b summarise_with_infinite)
qed

section \<open>The claims\<close>

text \<open>
  Claim C1. For every aggregate result that \<^verbatim>\<open>run_all_diagnostics\<close> returns,
  \<open>total_issues\<close> is the number of the four detector results with \<open>detected\<close> true,
  \<open>avg_confidence\<close> is the arithmetic mean of the confidences of the detected results
  (0 when there is none), and \<open>risk_score\<close> is \<open>total_issues\<close> times \<open>avg_confidence\<close>;
  when exactly one detector has detected, \<open>risk_score\<close> is that detector's confidence.
  The confidences of the detected results are finite numbers \<open>cs\<close>.
\<close>

theorem run_all_diagnostics_summary:
  assumes "run_all_diagnostics h f ra ef = Inr res"
  shows "\<exists>cs. map snd (filter fst (flags res)) = map Fin cs \<and>
           total_issues (summary res) = length (filter fst (flags res)) \<and>
           avg_confidence (summary res) =
             Fin (if cs = [] then 0 else sum_list cs / real (length cs)) \<and>
           risk_score (summary res) =
             fl_mul (Fin (real (total_issues (summary res)))) (avg_confidence (summary res)) \<and>
           (total_issues (summary res) = 1 \<longrightarrow>
              (\<forall>p\<in>set (flags res). fst p \<longrightarrow> risk_score (summary res) = snd p))"
proof -
  from run_all_confidences_finite[OF assms] obtain cs where
    cs: "map snd (filter fst (flags res)) = map Fin cs"
    by blast
  have sm: "summary res = summarise (flags res)"
    using run_all_Inr[OF assms] by blast
  have len: "length (filter fst (flags res)) = length cs"
    using arg_cong[OF cs, of length] by simp
  have total: "total_issues (summary res) = length (filter fst (flags res))"
    unfolding sm by (simp add: summarise_finite(1)[OF cs] len)
  have avg: "avg_confidence (summary res) =
      Fin (if cs = [] then 0 else sum_list cs / real (length cs))"
    unfolding sm by (rule summarise_finite(2)[OF cs])
  have prod: "risk_score (summary res) =
      fl_mul (Fin (real (total_issues (summary res)))) (avg_confidence (summary res))"
    unfolding sm by (rule summarise_product)
  have one: "risk_score (summary res) = snd p"
    if "total_issues (summary res) = 1" and "p \<in> set (flags res)" and "fst p" for p
  proof -
    from that(1) total have "length (filter fst (flags res)) = 1"
      by simp
    then have "snd p = Fin (sum_list cs)"
      using cs that(2,3) by (rule single_detected)
    then show ?thesis
      unfolding sm by (simp add: summarise_finite(3)[OF cs])
  qed
  show ?thesis
    using cs total avg prod one by blast
qed

theorem run_all_diagnostics_summary_witness:
  "\<exists>res. run_all_diagnostics [0, 2] [0, 2] [0] [1] = Inr res \<and>
     flags res = [(False, Fin 0), (False, Fin 0), (False, Fin 0), (True, Fin 1)] \<and>
     total_issues (summary res) = 1 \<and> avg_confidence (summary res) = Fin 1 \<and>
     risk_score (summary res) = Fin 1"
proof -
  from run_all_example obtain res where
    r: "run_all_diagnostics [0, 2] [0, 2] [0] [1] = Inr res" and
    fl: "flags res = [(False, Fin 0), (False, Fin 0), (False, Fin 0), (True, Fin 1)]"
    by blast
  from run_all_diagnostics_summary[OF r] obtain cs where
    cs: "map snd (filter fst (flags res)) = map Fin cs" and
    total: "total_issues (summary res) = length (filter fst (flags res))" and
    avg: "avg_confidence (summary res) = Fin (if cs = [] then 0 else sum_list cs / real (length cs))" and
    one: "total_issues (summary res) = 1 \<longrightarrow>
      (\<forall>p\<in>set (flags res). fst p \<longrightarrow> risk_score (summary res) = snd p)"
    by blast
  have "cs = [1]"
    using cs by (auto simp: fl)
  then show ?thesis
    using r fl total avg one by auto
qed

text \<open>
  Claim C2 says that the confidence of every detector lies in \<open>[0, 1]\<close>, also for the
  volatility detector when a segment mean is negative. The volatility detector has no cap:
  with a historical mean of 3 and a forecast mean of \<open>- 3\<close> the ratio of the
  coefficients of variation is \<open>- 1\<close>, the detector detects, and the confidence is
  \<open>(0.5 + 1) / 0.5 = 3\<close>.
\<close>

theorem volatility_confidence_exceeds_one:
  "detect_volatility_mismatch [1, 3, 5] [- 1, - 3, - 5] =
     \<lparr>detected = True, confidence = Fin 3, threshold = Fin (1 / 2),
      hist_cv = Fin (2 / 3), forecast_cv = Fin (- (2 / 3)), volatility_ratio = Fin (- 1)\<rparr> \<and>
   fl_lt (Fin 1) (confidence (detect_volatility_mismatch [1, 3, 5] [- 1, - 3, - 5]))"
  by (simp add: detect_volatility_mismatch_def Let_def cv_135 cv_neg_135 fl_ne_def)

text \<open>
  Claim C3. For each of the four detectors and every input on which it returns, a result
  whose \<open>detected\<close> flag is false has confidence exactly 0.
\<close>

theorem undetected_confidence_zero:
  "(detect_trend_mismatch h f = Inr t \<longrightarrow> \<not> detected t \<longrightarrow> confidence t = Fin 0) \<and>
   (detect_missing_seasonality h f = Inr s \<longrightarrow> \<not> detected s \<longrightarrow> confidence s = Fin 0) \<and>
   (\<not> detected (detect_volatility_mismatch h f) \<longrightarrow>
      confidence (detect_volatility_mismatch h f) = Fin 0) \<and>
   (\<not> detected (detect_magnitude_mismatch ra ef) \<longrightarrow>
      confidence (detect_magnitude_mismatch ra ef) = Fin 0)"
proof (intro conjI impI)
  assume "detect_trend_mismatch h f = Inr t" and "\<not> detected t"
  then show "confidence t = Fin 0"
    by (auto dest!: detect_trend_Inr simp: trend_of_undetected)
next
  assume "detect_missing_seasonality h f = Inr s" and "\<not> detected s"
  then show "confidence s = Fin 0"
    by (auto dest!: detect_seasonality_Inr simp: seasonality_of_confidence)
next
  assume "\<not> detected (detect_volatility_mismatch h f)"
  then show "confidence (detect_volatility_mismatch h f) = Fin 0"
    by (rule volatility_undetected)
next
  assume "\<not> detected (detect_magnitude_mismatch ra ef)"
  then show "confidence (detect_magnitude_mismatch ra ef) = Fin 0"
    by (simp add: magnitude_confidence)
qed

theorem undetected_confidence_zero_witness:
  "\<exists>t s. detect_trend_mismatch [0, 2] [0, 2] = Inr t \<and> \<not> detected t \<and> confidence t = Fin 0 \<and>
     detect_missing_seasonality [0, 2] [0, 2] = Inr s \<and> \<not> detected s \<and> confidence s = Fin 0 \<and>
     \<not> detected (detect_volatility_mismatch [0, 2] [0, 2]) \<and>
     confidence (detect_volatility_mismatch [0, 2] [0, 2]) = Fin 0 \<and>
     \<not> detected (detect_magnitude_mismatch [0, 2] [0, 2]) \<and>
     confidence (detect_magnitude_mismatch [0, 2] [0, 2]) = Fin 0"
proof -
  let ?t = "trend_of \<lparr>slope = Fin 2, rvalue = Fin 1\<rparr> \<lparr>slope = Fin 2, rvalue = Fin 1\<rparr>"
  let ?s = "seasonality_of (Fin 1) (Fin 1)"
  have t: "\<not> detected ?t"
    by (simp add: trend_of_def fl_gt_def)
  have s: "\<not> detected ?s"
    by (simp add: seasonality_of_def fl_gt_def)
  have v: "\<not> detected (detect_volatility_mismatch [0, 2] [0, 2])"
    by (simp add: detect_volatility_mismatch_def Let_def cv_02 fl_ne_def)
  have m: "\<not> detected (detect_magnitude_mismatch [0, 2] [0, 2])"
    by (simp add: detect_magnitude_mismatch_def Let_def series_mean_def fl_ne_def fl_gt_def)
  show ?thesis
    using undetected_confidence_zero[of "[0, 2]" "[0, 2]" ?t ?s "[0, 2]" "[0, 2]"]
      detect_trend_02_02 detect_seasonality_02_02 t s v m
    by blast
qed

text \<open>
  Claim C4 says that a segment of fewer than 2 points makes the trend detector fail with
  InsufficientDataError. The module defines no such error and checks no length. For a
  one-point history the regression routine returns a NaN slope, in either release of
  scipy, and the detector returns an ordinary result, \<open>detected\<close> false and confidence 0.
\<close>

theorem trend_one_point_returns:
  "detect_trend_mismatch_with (ieee_numerics Scipy_1_17) [5] [0, 2] =
     Inr \<lparr>detected = False, confidence = Fin 0,
          historical_trend = ''decreasing'', forecast_trend = ''increasing'',
          hist_slope = NaN, forecast_slope = Fin 2,
          hist_r_squared = NaN, forecast_r_squared = Fin 1\<rparr> \<and>
   detect_trend_mismatch_with (ieee_numerics Scipy_1_11) [5] [0, 2] =
     Inr \<lparr>detected = False, confidence = Fin 0,
          historical_trend = ''decreasing'', forecast_trend = ''increasing'',
          hist_slope = NaN, forecast_slope = Fin 2,
          hist_r_squared = Fin 0, forecast_r_squared = Fin 1\<rparr>"
  by (simp add: detect_trend_with_single trend_of_def fl_gt_def)

text \<open>
  Claim C4, amended. Every error of the trend detector reaches the caller of the
  aggregator unchanged, whatever the library routines are. When a segment has fewer than
  2 points the trend detector has no error of its own: if it returns, \<open>detected\<close> is false
  and the confidence is 0; if it fails, the error is the ValueError that the regression
  routine of the earlier releases raises for an empty segment.
\<close>

theorem trend_short_segment:
  "(detect_trend_mismatch_with N h f = Inl e \<longrightarrow> run_all_diagnostics_with N h f ra ef = Inl e) \<and>
   (regress N = linregress_of rel \<and> (length h < 2 \<or> length f < 2) \<longrightarrow>
      (detect_trend_mismatch_with N h f = Inr t \<longrightarrow> \<not> detected t \<and> confidence t = Fin 0) \<and>
      (detect_trend_mismatch_with N h f = Inl e \<longrightarrow>
         e = ValueError \<and> rel = Scipy_1_11 \<and> (h = [] \<or> f = [])))"
  using run_all_with_trend_error[of N h f e ra ef] detect_trend_with_short[of N rel h f t]
    detect_trend_with_error[of N rel h f e]
  by blast

theorem trend_short_segment_witness:
  "detect_trend_mismatch_with (ieee_numerics Scipy_1_11) [] [0, 2] = Inl ValueError \<and>
   run_all_diagnostics_with (ieee_numerics Scipy_1_11) [] [0, 2] [] [0, 2] = Inl ValueError \<and>
   (\<exists>t. detect_trend_mismatch_with (ieee_numerics Scipy_1_17) [5] [0, 2] = Inr t \<and>
        \<not> detected t \<and> confidence t = Fin 0)"
proof -
  have a: "detect_trend_mismatch_with (ieee_numerics Scipy_1_11) [] [0, 2] = Inl ValueError"
    by (simp add: detect_trend_mismatch_with_def ieee_numerics_def linregress_of_def
        linregress_def arange_def)
  have r: "regress (ieee_numerics Scipy_1_17) = linregress_of Scipy_1_17"
    by (simp add: ieee_numerics_def)
  have s: "length [5 :: real] < 2 \<or> length [0, 2 :: real] < 2"
    by simp
  show ?thesis
    using trend_short_segment[where N = "ieee_numerics Scipy_1_11" and h = "[]" and f = "[0, 2]"
        and e = ValueError and ra = "[]" and ef = "[0, 2]"]
      trend_short_segment[where N = "ieee_numerics Scipy_1_17" and h = "[5]" and f = "[0, 2]"
        and rel = Scipy_1_17
        and t = "trend_of \<lparr>slope = NaN, rvalue = NaN\<rparr> \<lparr>slope = Fin 2, rvalue = Fin 1\<rparr>"]
      a r s detect_trend_with_single(1)
    by blast
qed

text \<open>
  Claim C5. The seasonality detector is to return for every pair of non-empty series. For
  a one-point series, as the forecast or as the history, it does not: the spectrum has
  one bin, the bin selected for a series of fewer than 12 points is bin 1, and the
  indexing fails with IndexError.
\<close>

theorem seasonality_one_point_index_error:
  "detect_missing_seasonality [0, 2] [7] = Inl IndexError \<and>
   detect_missing_seasonality [7] [0, 2] = Inl IndexError \<and>
   fft_abs [7] = Inr [7] \<and> seasonal_freq_index (length [7 :: real]) = 1"
  by (simp add: detect_missing_seasonality_def seasonal_strength_single seasonal_strength_02
      fft_abs_def dft_bin_def seasonal_freq_index_def)

text \<open>
  Claim C6. The \<open>detected\<close> flag of the trend detector is true exactly when the slope of
  the historical segment and the slope of the forecast segment have strictly opposite
  signs; when either slope is exactly 0, \<open>detected\<close> is false. For segments of at least
  two points the two slopes are the ordinary least-squares slopes.
\<close>

theorem trend_detected_iff_opposite_slopes:
  assumes "detect_trend_mismatch h f = Inr t"
  shows "(detected t \<longleftrightarrow>
            (fl_gt (hist_slope t) (Fin 0) \<and> fl_lt (forecast_slope t) (Fin 0)) \<or>
            (fl_lt (hist_slope t) (Fin 0) \<and> fl_gt (forecast_slope t) (Fin 0))) \<and>
         (hist_slope t = Fin 0 \<or> forecast_slope t = Fin 0 \<longrightarrow> \<not> detected t) \<and>
         (2 \<le> length h \<and> 2 \<le> length f \<longrightarrow>
            hist_slope t = Fin (ols_slope h) \<and> forecast_slope t = Fin (ols_slope f) \<and>
            (detected t \<longleftrightarrow>
               (0 < ols_slope h \<and> ols_slope f < 0) \<or> (ols_slope h < 0 \<and> 0 < ols_slope f)))"
proof -
  from assms obtain hr fr where
    hr: "linregress (arange (length h)) h = Inr hr" and
    fr: "linregress (arange (length f)) f = Inr fr" and t: "t = trend_of hr fr"
    by (auto dest: detect_trend_Inr)
  have iff: "detected t \<longleftrightarrow>
      (fl_gt (hist_slope t) (Fin 0) \<and> fl_lt (forecast_slope t) (Fin 0)) \<or>
      (fl_lt (hist_slope t) (Fin 0) \<and> fl_gt (forecast_slope t) (Fin 0))"
    unfolding t by (simp add: trend_of_slopes)
  have zero: "\<not> detected t" if "hist_slope t = Fin 0 \<or> forecast_slope t = Fin 0"
    using that iff by (auto simp: fl_gt_def)
  have ols: "hist_slope t = Fin (ols_slope h) \<and> forecast_slope t = Fin (ols_slope f) \<and>
      (detected t \<longleftrightarrow>
         (0 < ols_slope h \<and> ols_slope f < 0) \<or> (ols_slope h < 0 \<and> 0 < ols_slope f))"
    if "2 \<le> length h \<and> 2 \<le> length f"
  proof -
    have a: "hist_slope t = Fin (ols_slope h)"
      using that linregress_slope_ols[OF _ hr] by (simp add: t trend_of_slopes)
    have b: "forecast_slope t = Fin (ols_slope f)"
      using that linregress_slope_ols[OF _ fr] by (simp add: t trend_of_slopes)
    show ?thesis
      using iff by (simp add: a b fl_gt_def)
  qed
  show ?thesis
    using iff zero ols by blast
qed

theorem trend_detected_iff_opposite_slopes_witness:
  "\<exists>t u. detect_trend_mismatch [1, 1] [0, 2] = Inr t \<and>
      hist_slope t = Fin 0 \<and> ols_slope [1, 1] = 0 \<and> ols_slope [0, 2] = 2 \<and> \<not> detected t \<and>
      detect_trend_mismatch [0, 2] [2, 0] = Inr u \<and>
      hist_slope u = Fin 2 \<and> forecast_slope u = Fin (- 2) \<and> ols_slope [2, 0] = - 2 \<and>
      detected u"
proof -
  let ?t = "trend_of \<lparr>slope = Fin 0, rvalue = Fin 0\<rparr> \<lparr>slope = Fin 2, rvalue = Fin 1\<rparr>"
  let ?u = "trend_of \<lparr>slope = Fin 2, rvalue = Fin 1\<rparr> \<lparr>slope = Fin (- 2), rvalue = Fin (- 1)\<rparr>"
  have len: "2 \<le> length [1, 1 :: real] \<and> 2 \<le> length [0, 2 :: real]"
    "2 \<le> length [0, 2 :: real] \<and> 2 \<le> length [2, 0 :: real]"
    by simp_all
  have t: "hist_slope ?t = Fin 0" "forecast_slope ?t = Fin 2"
    and u: "hist_slope ?u = Fin 2" "forecast_slope ?u = Fin (- 2)"
    by (simp_all add: trend_of_slopes)
  from trend_detected_iff_opposite_slopes[OF detect_trend_11_02]
    trend_detected_iff_opposite_slopes[OF detect_trend_02_20]
  have "\<not> detected ?t" and "ols_slope [1, 1] = 0" and "ols_slope [0, 2] = 2"
    and "ols_slope [2, 0] = - 2" and "detected ?u"
    using len by (simp_all add: t u fl_gt_def)
  then show ?thesis
    using detect_trend_11_02 detect_trend_02_20 t u by blast
qed




text \<open>
  Claim C8. When the mean of the recent actuals is exactly 0 and the mean of the early
  forecast is not, the percentage difference of the magnitude detector is plus infinity,
  \<open>detected\<close> is true and the confidence is 1, and the \<open>risk_score\<close> of the aggregate result
  is to be finite. At the series below the first three hold and the last does not. The
  squared deviations of the forecast overflow, so its standard deviation is infinite and
  the volatility ratio is minus infinity; the confidence of the volatility detector,
  which has no cap, is plus infinity, and so are \<open>avg_confidence\<close> and \<open>risk_score\<close>,
  with either release of scipy. The missing cap is that of claim C2.
\<close>

theorem risk_score_overflow:
  "(\<exists>res. run_all_diagnostics_with (ieee_numerics Scipy_1_17)
       overflow_history overflow_forecast overflow_recent overflow_forecast = Inr res \<and>
     pct_difference (magnitude_mismatch res) = PInf \<and>
     detected (magnitude_mismatch res) \<and> confidence (magnitude_mismatch res) = Fin 1 \<and>
     detected (volatility_mismatch res) \<and> confidence (volatility_mismatch res) = PInf \<and>
     avg_confidence (summary res) = PInf \<and> risk_score (summary res) = PInf) \<and>
   (\<exists>res. run_all_diagnostics_with (ieee_numerics Scipy_1_11)
       overflow_history overflow_forecast overflow_recent overflow_forecast = Inr res \<and>
     pct_difference (magnitude_mismatch res) = PInf \<and>
     detected (magnitude_mismatch res) \<and> confidence (magnitude_mismatch res) = Fin 1 \<and>
     detected (volatility_mismatch res) \<and> confidence (volatility_mismatch res) = PInf \<and>
     avg_confidence (summary res) = PInf \<and> risk_score (summary res) = PInf)"
  using aggregate_overflow[of Scipy_1_17] aggregate_overflow[of Scipy_1_11]
  by blast

text \<open>
  Claim C9. The confidence of the seasonality detector and of the magnitude detector is
  1 when \<open>detected\<close> is true and 0 otherwise: detection requires the measured quantity to
  exceed the threshold, so the quotient by the threshold exceeds 1 and the cap at 1 applies.
\<close>

theorem seasonality_magnitude_confidence_binary:
  "(detect_missing_seasonality h f = Inr s \<longrightarrow>
      confidence s = (if detected s then Fin 1 else Fin 0) \<and>
      (detected s \<longrightarrow> fl_lt (Fin 1) (fl_div (hist_seasonal_strength s) (threshold s)))) \<and>
   confidence (detect_magnitude_mismatch ra ef) =
      (if detected (detect_magnitude_mismatch ra ef) then Fin 1 else Fin 0) \<and>
   (detected (detect_magnitude_mismatch ra ef) \<longrightarrow>
      fl_lt (Fin 1)
        (fl_div (pct_difference (detect_magnitude_mismatch ra ef))
           (threshold (detect_magnitude_mismatch ra ef))))"
proof (intro conjI impI)
  assume "detect_missing_seasonality h f = Inr s"
  then obtain hs fs where s: "s = seasonality_of hs fs"
    by (auto dest: detect_seasonality_Inr)
  show "confidence s = (if detected s then Fin 1 else Fin 0)"
    unfolding s by (rule seasonality_of_confidence)
  show "fl_lt (Fin 1) (fl_div (hist_seasonal_strength s) (threshold s))" if "detected s"
    using that unfolding s by (rule seasonality_of_preclamp)
next
  show "confidence (detect_magnitude_mismatch ra ef) =
      (if detected (detect_magnitude_mismatch ra ef) then Fin 1 else Fin 0)"
    by (rule magnitude_confidence)
next
  assume "detected (detect_magnitude_mismatch ra ef)"
  then show "fl_lt (Fin 1)
        (fl_div (pct_difference (detect_magnitude_mismatch ra ef))
           (threshold (detect_magnitude_mismatch ra ef)))"
    by (rule magnitude_preclamp)
qed

theorem seasonality_magnitude_confidence_binary_witness:
  "\<exists>s. detect_missing_seasonality [1, 0, 0, - 1, 0, 0] [0, 2] = Inr s \<and>
       detected s \<and> confidence s = Fin 1 \<and>
       fl_lt (Fin 1) (fl_div (hist_seasonal_strength s) (threshold s)) \<and>
       detected (detect_magnitude_mismatch [100] [151]) \<and>
       confidence (detect_magnitude_mismatch [100] [151]) = Fin 1 \<and>
       fl_lt (Fin 1)
         (fl_div (pct_difference (detect_magnitude_mismatch [100] [151]))
            (threshold (detect_magnitude_mismatch [100] [151])))"
proof -
  let ?s = "seasonality_of (Fin (5 / 3)) (Fin 1)"
  have s: "detected ?s"
    by (simp add: seasonality_of_def fl_gt_def)
  have m: "detected (detect_magnitude_mismatch [100] [151])"
    by (simp add: detect_magnitude_mismatch_def Let_def series_mean_def fl_ne_def fl_gt_def)
  show ?thesis
    using seasonality_magnitude_confidence_binary[of "[1, 0, 0, - 1, 0, 0]" "[0, 2]" ?s "[100]" "[151]"]
      detect_seasonality_pulse_02 s m
    by auto
qed

text \<open>
  Claim C10. When the mean of the recent actuals is strictly negative, the percentage
  difference is the absolute difference of the two means divided by the signed recent
  mean; it is never positive, so the magnitude detector does not detect and its
  confidence is 0, whatever the early forecast window is.
\<close>

theorem magnitude_negative_recent_mean:
  assumes "series_mean ra = Fin m" and "m < 0"
  shows "\<not> fl_gt (pct_difference (detect_magnitude_mismatch ra ef)) (Fin 0) \<and>
         (\<forall>a. series_mean ef = Fin a \<longrightarrow>
            pct_difference (detect_magnitude_mismatch ra ef) = Fin (\<bar>a - m\<bar> / m) \<and> \<bar>a - m\<bar> / m \<le> 0) \<and>
         \<not> detected (detect_magnitude_mismatch ra ef) \<and>
         confidence (detect_magnitude_mismatch ra ef) = Fin 0"
proof -
  have ne: "fl_ne (Fin m) (Fin 0)"
    using assms(2) by (simp add: fl_ne_def)
  have pct: "pct_difference (detect_magnitude_mismatch ra ef) =
      fl_div (fl_abs (fl_sub (series_mean ef) (Fin m))) (Fin m)"
    using assms(1) ne by (simp add: detect_magnitude_mismatch_def Let_def)
  have le: "\<not> fl_gt (pct_difference (detect_magnitude_mismatch ra ef)) (Fin 0)"
    unfolding pct using assms(2) by (rule pct_diff_negative_mean)
  then have "\<not> fl_gt (pct_difference (detect_magnitude_mismatch ra ef)) (Fin (1 / 2))"
    by (rule not_positive_not_above_half)
  then have nd: "\<not> detected (detect_magnitude_mismatch ra ef)"
    by (simp add: detect_magnitude_mismatch_def Let_def)
  have val: "pct_difference (detect_magnitude_mismatch ra ef) = Fin (\<bar>a - m\<bar> / m) \<and> \<bar>a - m\<bar> / m \<le> 0"
    if "series_mean ef = Fin a" for a
    using that assms(2) by (simp add: pct divide_le_0_iff)
  show ?thesis
    using le nd val by (simp add: magnitude_confidence)
qed

theorem magnitude_negative_recent_mean_witness:
  "series_mean [- 2] = Fin (- 2) \<and> (- 2 :: real) < 0 \<and> series_mean [100] = Fin 100 \<and>
   pct_difference (detect_magnitude_mismatch [- 2] [100]) = Fin (- 51) \<and>
   \<not> detected (detect_magnitude_mismatch [- 2] [100]) \<and>
   confidence (detect_magnitude_mismatch [- 2] [100]) = Fin 0"
proof -
  have a: "series_mean [- 2] = Fin (- 2)"
    by (simp add: series_mean_def)
  have b: "(- 2 :: real) < 0"
    by simp
  have c: "series_mean [100] = Fin 100"
    by (simp add: series_mean_def)
  show ?thesis
    using magnitude_negative_recent_mean[OF a b, of "[100]"] a c by simp
qed

end
